theory Spec2Isabelle
  imports Complex_Main "HOL-Library.Word"
begin

unbundle bit_operations_syntax

section \<open>TT Control: conventions of the embedding\<close>

text \<open>
  The firmware is C++ for a 32-bit ARM core.  Unsigned machine integers are words
  (\<open>uint8_t\<close> is \<open>8 word\<close>, \<open>uint16_t\<close> is \<open>16 word\<close>, \<open>uint32_t\<close> is \<open>32 word\<close>),
  \<open>int16_t\<close> sample values are \<open>16 word\<close> read with \<open>sint\<close>.  Fixed-size C arrays are
  functions from the index.  In the waveform generator and the motor controller a
  \<open>float\<close> or \<open>double\<close> is the real number it denotes and the arithmetic is exact; the
  conversion of a floating value to an integer type discards the fraction (\<open>trunc\<close>).
  The persistent settings are read back from raw bytes, so there a \<open>float\<close> is a value
  of the type \<open>cfloat\<close>, which also has the infinities and NaN, and the additions of
  \<open>Settings::validate\<close> are rounded as IEEE 754 arithmetic rounds them.
\<close>

type_synonym u8 = "8 word"
type_synonym u16 = "16 word"
type_synonym u32 = "32 word"

definition trunc :: "real \<Rightarrow> int" where
  "trunc x = (if 0 \<le> x then \<lfloor>x\<rfloor> else \<lceil>x\<rceil>)"

definition upd2 :: "(nat \<Rightarrow> nat \<Rightarrow> 'a) \<Rightarrow> nat \<Rightarrow> nat \<Rightarrow> 'a \<Rightarrow> (nat \<Rightarrow> nat \<Rightarrow> 'a)" where
  "upd2 a i j v = a(i := (a i)(j := v))"

section \<open>types.h and config.h\<close>

definition FILTER_NONE :: nat where "FILTER_NONE = 0"
definition FILTER_IIR :: nat where "FILTER_IIR = 1"
definition FILTER_FIR :: nat where "FILTER_FIR = 2"

definition FIR_GENTLE :: nat where "FIR_GENTLE = 0"
definition FIR_MEDIUM :: nat where "FIR_MEDIUM = 1"
definition FIR_AGGRESSIVE :: nat where "FIR_AGGRESSIVE = 2"

definition LUT_MAX_SIZE :: nat where "LUT_MAX_SIZE = 16384"
definition DMA_BUFFER_SIZE :: nat where "DMA_BUFFER_SIZE = 256"

text \<open>
  \<open>struct SpeedSettings\<close>, over the representation \<open>'f\<close> of a \<open>float\<close>.
\<close>

record 'f SpeedSettings =
  frequency :: 'f
  minFrequency :: 'f
  maxFrequency :: 'f
  phaseOffset :: "nat \<Rightarrow> 'f"
  softStartDuration :: 'f
  reducedAmplitude :: u8
  amplitudeDelay :: u8
  startupKick :: u8
  startupKickDuration :: u8
  startupKickRampDuration :: 'f
  filterType :: u8
  iirAlpha :: 'f
  firProfile :: u8

section \<open>waveform.h, waveform.cpp: the DDS generator\<close>

record WaveformState =
  ws_frequency :: real
  ws_phaseInc :: u32
  ws_phaseOffsets :: "nat \<Rightarrow> u32"
  ws_amplitude :: real
  ws_filterType :: nat
  ws_iirAlpha :: real
  ws_firProfile :: nat

text \<open>
  The two pointers \<open>_activeState\<close> and \<open>_pendingState\<close> always point one at \<open>_stateA\<close>
  and the other at \<open>_stateB\<close>; the record holds the block each of them points at.
  \<open>_lutSize\<close> and \<open>_lutShift\<close> are written by the constructor only
  (\<open>LUT_MAX_SIZE\<close> and \<open>32 - (int)log2(LUT_MAX_SIZE) = 18\<close>).
\<close>

record WaveformGenerator =
  activeState :: WaveformState
  pendingState :: WaveformState
  enabled :: bool
  swapPending :: bool
  phaseAcc :: "nat \<Rightarrow> u32"
  iirPrev :: "nat \<Rightarrow> real"
  firBuffer :: "nat \<Rightarrow> nat \<Rightarrow> real"
  lut :: "nat \<Rightarrow> int"
  dmaBufferSlice0 :: "nat \<Rightarrow> nat \<Rightarrow> u32"
  dmaBufferSlice1 :: "nat \<Rightarrow> nat \<Rightarrow> u32"

definition lutSize :: nat where "lutSize = LUT_MAX_SIZE"
definition lutShift :: nat where "lutShift = 18"

definition FIR_COEFFS_GENTLE :: "nat \<Rightarrow> real" where
  "FIR_COEFFS_GENTLE i = [0, 0, 1/10, 4/10, 4/10, 1/10, 0, 0] ! i"
definition FIR_COEFFS_MEDIUM :: "nat \<Rightarrow> real" where
  "FIR_COEFFS_MEDIUM i = [5/100, 5/100, 1/10, 3/10, 3/10, 1/10, 5/100, 5/100] ! i"
definition FIR_COEFFS_AGGRESSIVE :: "nat \<Rightarrow> real" where
  "FIR_COEFFS_AGGRESSIVE i = [1/10, 1/10, 1/10, 2/10, 2/10, 1/10, 1/10, 1/10] ! i"

text \<open>The constructor \<open>WaveformGenerator::WaveformGenerator()\<close>; the object is a global,
  so the members it does not assign are zero.\<close>

definition stateA_init :: WaveformState where
  "stateA_init = \<lparr> ws_frequency = 50, ws_phaseInc = 0, ws_phaseOffsets = (\<lambda>_. 0),
     ws_amplitude = 0, ws_filterType = FILTER_NONE, ws_iirAlpha = 0,
     ws_firProfile = FIR_GENTLE \<rparr>"

definition WaveformGenerator_init :: WaveformGenerator where
  "WaveformGenerator_init = \<lparr> activeState = stateA_init, pendingState = stateA_init,
     enabled = False, swapPending = False, phaseAcc = (\<lambda>_. 0), iirPrev = (\<lambda>_. 0),
     firBuffer = (\<lambda>_ _. 0), lut = (\<lambda>_. 0),
     dmaBufferSlice0 = (\<lambda>_ _. 0), dmaBufferSlice1 = (\<lambda>_ _. 0) \<rparr>"

text \<open>\<open>generateLUT\<close>: \<open>_lut[i] = (int16_t)(sin(2.0 * PI * i / _lutSize) * 511.0)\<close>.\<close>

function generateLUT_loop :: "nat \<Rightarrow> WaveformGenerator \<Rightarrow> WaveformGenerator" where
  "generateLUT_loop i g =
     (if i < lutSize
      then generateLUT_loop (i + 1)
             (g\<lparr>lut := (lut g)(i := trunc (sin ((2 * pi * real i) / real lutSize) * 511))\<rparr>)
      else g)"
  by pat_completeness auto
termination
  by (relation "measure (\<lambda>(i, g). lutSize - i)") auto

declare generateLUT_loop.simps [simp del]

definition generateLUT :: "WaveformGenerator \<Rightarrow> WaveformGenerator" where
  "generateLUT g = generateLUT_loop 0 g"

text \<open>\<open>getSample(channel)\<close> returns the sample and the generator with its filter
  history updated.\<close>

definition firShift :: "(nat \<Rightarrow> real) \<Rightarrow> real \<Rightarrow> (nat \<Rightarrow> real)" where
  "firShift b v = (\<lambda>i. if i = 0 then v else if i \<le> 7 then b (i - 1) else b i)"

definition firSum :: "(nat \<Rightarrow> real) \<Rightarrow> (nat \<Rightarrow> real) \<Rightarrow> real" where
  "firSum b coeffs = foldl (\<lambda>s i. s + b i * coeffs i) 0 [0..<8]"

definition getSample :: "nat \<Rightarrow> WaveformGenerator \<Rightarrow> u16 \<times> WaveformGenerator" where
  "getSample channel g =
     (let state = activeState g;
          phase = phaseAcc g 0 + ws_phaseOffsets state channel;
          index = (ucast (drop_bit lutShift phase) :: u16);
          frac = (ucast (drop_bit (lutShift - 10) phase AND 0x3FF) :: u16);
          nextIndex0 = index + 1;
          nextIndex = (if lutSize \<le> unat nextIndex0 then 0 else nextIndex0);
          s1 = lut g (unat index);
          s2 = lut g (unat nextIndex);
          val0 = s1 + ((s2 - s1) * uint frac) div 1024;
          val1 = trunc (real_of_int val0 * ws_amplitude state)
      in if ws_filterType state = FILTER_IIR then
           (let alpha = ws_iirAlpha state;
                out = alpha * real_of_int val1 + (1 - alpha) * iirPrev g channel
            in (word_of_int (trunc out), g\<lparr>iirPrev := (iirPrev g)(channel := out)\<rparr>))
         else if ws_filterType state = FILTER_FIR then
           (let b = firShift (firBuffer g channel) (real_of_int val1);
                coeffs = (if ws_firProfile state = FIR_GENTLE then FIR_COEFFS_GENTLE
                          else if ws_firProfile state = FIR_MEDIUM then FIR_COEFFS_MEDIUM
                          else FIR_COEFFS_AGGRESSIVE)
            in (word_of_int (trunc (firSum b coeffs)),
                g\<lparr>firBuffer := (firBuffer g)(channel := b)\<rparr>))
         else (word_of_int val1, g))"

text \<open>\<open>fillBuffer(bufferIndex)\<close>: the loop of the disabled branch, the state swap, one
  iteration of the synthesis loop, and the loop.\<close>

function zeroLoop :: "nat \<Rightarrow> nat \<Rightarrow> WaveformGenerator \<Rightarrow> WaveformGenerator" where
  "zeroLoop bufferIndex i g =
     (if i < DMA_BUFFER_SIZE
      then zeroLoop bufferIndex (i + 1)
             (g\<lparr>dmaBufferSlice0 := upd2 (dmaBufferSlice0 g) bufferIndex i 0,
                dmaBufferSlice1 := upd2 (dmaBufferSlice1 g) bufferIndex i 0\<rparr>)
      else g)"
  by pat_completeness auto
termination
  by (relation "measure (\<lambda>(b, i, g). DMA_BUFFER_SIZE - i)") auto

declare zeroLoop.simps [simp del]

definition handleStateSwap :: "WaveformGenerator \<Rightarrow> WaveformGenerator" where
  "handleStateSwap g =
     (if swapPending g
      then g\<lparr>activeState := pendingState g, pendingState := pendingState g,
             swapPending := False\<rparr>
      else g)"

definition clamp1023 :: "u16 \<Rightarrow> u16" where
  "clamp1023 v = (if v > 1023 then 1023 else v)"

definition packWord :: "u16 \<Rightarrow> u16 \<Rightarrow> u32" where
  "packWord hi lo = push_bit 16 (ucast hi) OR ucast lo"

definition synthTick :: "nat \<Rightarrow> nat \<Rightarrow> WaveformGenerator \<Rightarrow> WaveformGenerator" where
  "synthTick bufferIndex i g =
     (let (sA, g0) = getSample 0 g;
          (sB, g1) = getSample 1 g0;
          (sC, g2) = getSample 2 g1;
          (sD, g3) = getSample 3 g2;
          g4 = g3\<lparr>phaseAcc := (phaseAcc g3)(0 := phaseAcc g3 0 + ws_phaseInc (activeState g3))\<rparr>;
          valA = clamp1023 (word_of_int (512 + sint sA));
          valB = clamp1023 (word_of_int (512 + sint sB));
          valC = clamp1023 (word_of_int (512 + sint sC));
          valD = clamp1023 (word_of_int (512 + sint sD))
      in g4\<lparr>dmaBufferSlice0 := upd2 (dmaBufferSlice0 g4) bufferIndex i (packWord valB valA),
            dmaBufferSlice1 := upd2 (dmaBufferSlice1 g4) bufferIndex i (packWord valD valC)\<rparr>)"

function fillLoop :: "nat \<Rightarrow> nat \<Rightarrow> WaveformGenerator \<Rightarrow> WaveformGenerator" where
  "fillLoop bufferIndex i g =
     (if i < DMA_BUFFER_SIZE
      then fillLoop bufferIndex (i + 1) (synthTick bufferIndex i g)
      else g)"
  by pat_completeness auto
termination
  by (relation "measure (\<lambda>(b, i, g). DMA_BUFFER_SIZE - i)") auto

declare fillLoop.simps [simp del]

definition fillBuffer :: "nat \<Rightarrow> WaveformGenerator \<Rightarrow> WaveformGenerator" where
  "fillBuffer bufferIndex g =
     (if \<not> enabled g then zeroLoop bufferIndex 0 g
      else fillLoop bufferIndex 0 (handleStateSwap g))"

text \<open>The halves of a packed DMA word: the low 16 bits drive channel A (or C), the
  high 16 bits channel B (or D).\<close>

definition lowHalf :: "u32 \<Rightarrow> u16" where
  "lowHalf w = ucast w"

definition highHalf :: "u32 \<Rightarrow> u16" where
  "highHalf w = ucast (drop_bit 16 w)"

text \<open>
  The control functions write the pending block.  \<open>(uint32_t)\<close> of a \<open>double\<close> discards
  the fraction; outside the range of \<open>uint32_t\<close> the conversion is undefined in C++, and
  the ARM conversion routine saturates, which is what \<open>to_u32\<close> does.
\<close>

definition to_u32 :: "real \<Rightarrow> u32" where
  "to_u32 x = (if x < 0 then 0 else if 4294967296 \<le> x then 0xFFFFFFFF
               else word_of_int (trunc x))"

definition phaseOffset_u32 :: "real \<Rightarrow> u32" where
  "phaseOffset_u32 deg = to_u32 ((deg / 360) * 4294967296)"

definition configure :: "real SpeedSettings \<Rightarrow> WaveformGenerator \<Rightarrow> WaveformGenerator" where
  "configure s g =
     g\<lparr>pendingState := (pendingState g)
          \<lparr>ws_filterType := unat (filterType s),
           ws_iirAlpha := iirAlpha s,
           ws_firProfile := unat (firProfile s),
           ws_phaseOffsets := (\<lambda>i. if i < 4 then phaseOffset_u32 (phaseOffset s i)
                                    else ws_phaseOffsets (pendingState g) i)\<rparr>,
       swapPending := True\<rparr>"

definition setFrequency :: "real \<Rightarrow> WaveformGenerator \<Rightarrow> WaveformGenerator" where
  "setFrequency freq g =
     g\<lparr>pendingState := (pendingState g)
          \<lparr>ws_frequency := freq, ws_phaseInc := to_u32 (freq * 85899.34592)\<rparr>,
       swapPending := True\<rparr>"

definition getFrequency :: "WaveformGenerator \<Rightarrow> real" where
  "getFrequency g = ws_frequency (pendingState g)"

definition setAmplitude :: "real \<Rightarrow> WaveformGenerator \<Rightarrow> WaveformGenerator" where
  "setAmplitude amp g =
     (let amp1 = (if amp < 0 then 0 else amp);
          amp2 = (if amp1 > 1 then 1 else amp1)
      in g\<lparr>pendingState := (pendingState g)\<lparr>ws_amplitude := amp2\<rparr>, swapPending := True\<rparr>)"

definition updateSettings ::
    "real \<Rightarrow> real SpeedSettings \<Rightarrow> WaveformGenerator \<Rightarrow> WaveformGenerator" where
  "updateSettings freq s g =
     g\<lparr>pendingState := (pendingState g)
          \<lparr>ws_frequency := freq,
           ws_phaseInc := to_u32 (freq * 85899.34592),
           ws_filterType := unat (filterType s),
           ws_iirAlpha := iirAlpha s,
           ws_firProfile := unat (firProfile s),
           ws_phaseOffsets := (\<lambda>i. if i < 4 then phaseOffset_u32 (phaseOffset s i)
                                    else ws_phaseOffsets (pendingState g) i)\<rparr>,
       swapPending := True\<rparr>"

definition setEnabled :: "bool \<Rightarrow> WaveformGenerator \<Rightarrow> WaveformGenerator" where
  "setEnabled e g = g\<lparr>enabled := e\<rparr>"


text \<open>A packed word is in range when both of its compare values are at most 1023.\<close>

definition packedOK :: "u32 \<Rightarrow> bool" where
  "packedOK w \<longleftrightarrow> unat (lowHalf w) \<le> 1023 \<and> unat (highHalf w) \<le> 1023"

section \<open>types.h: the persistent configuration\<close>

definition SPEED_33 :: u32 where "SPEED_33 = 0"
definition SPEED_45 :: u32 where "SPEED_45 = 1"
definition SPEED_78 :: u32 where "SPEED_78 = 2"

definition BRAKE_OFF :: u8 where "BRAKE_OFF = 0"
definition BRAKE_PULSE :: u8 where "BRAKE_PULSE = 1"
definition BRAKE_RAMP :: u8 where "BRAKE_RAMP = 2"

definition RAMP_LINEAR :: u8 where "RAMP_LINEAR = 0"
definition RAMP_SCURVE :: u8 where "RAMP_SCURVE = 1"

definition MAX_PRESET_SLOTS :: nat where "MAX_PRESET_SLOTS = 5"
definition SETTINGS_SCHEMA_VERSION :: u32 where "SETTINGS_SCHEMA_VERSION = 4"
definition DEFAULT_PHASE_MODE :: u8 where "DEFAULT_PHASE_MODE = 3"
definition DEFAULT_SPEED_INDEX :: u32 where "DEFAULT_SPEED_INDEX = 0"

text \<open>\<open>struct GlobalSettings\<close> (schema version 4).  \<open>currentSpeed\<close> is the enum
  \<open>SpeedMode\<close>, held as its underlying unsigned value.\<close>

record 'f GlobalSettings =
  schemaVersion :: u32
  phaseMode :: u8
  maxAmplitude :: u8
  softStartCurve :: u8
  smoothSwitching :: bool
  switchRampDuration :: u8
  brakeMode :: u8
  brakeDuration :: 'f
  brakePulseGap :: 'f
  brakeStartFreq :: 'f
  brakeStopFreq :: 'f
  relayActiveHigh :: bool
  muteRelayLinkStandby :: bool
  muteRelayLinkStartStop :: bool
  powerOnRelayDelay :: u8
  displayBrightness :: u8
  displaySleepDelay :: u8
  screensaverEnabled :: bool
  autoDimDelay :: u8
  showRuntime :: bool
  errorDisplayEnabled :: bool
  errorDisplayDuration :: u8
  autoStandbyDelay :: u8
  autoStart :: bool
  autoBoot :: bool
  pitchResetOnStop :: bool
  speeds :: "nat \<Rightarrow> 'f SpeedSettings"
  presetNames :: "nat \<Rightarrow> string"
  totalRuntime :: u32
  reverseEncoder :: bool
  pitchStepSize :: 'f
  rampType :: u8
  screensaverMode :: u8
  enable78rpm :: bool
  freqDependentAmplitude :: u8
  bootSpeed :: u8
  currentSpeed :: u32

section \<open>settings.cpp: the legacy layouts\<close>

record 'f GlobalSettingsV2 =
  v2_schemaVersion :: u32
  v2_phaseMode :: u8
  v2_maxAmplitude :: u8
  v2_softStartCurve :: u8
  v2_smoothSwitching :: bool
  v2_switchRampDuration :: u8
  v2_brakeMode :: u8
  v2_brakeDuration :: 'f
  v2_brakePulseGap :: 'f
  v2_brakeStartFreq :: 'f
  v2_brakeStopFreq :: 'f
  v2_relayActiveHigh :: bool
  v2_muteRelayLinkStandby :: bool
  v2_muteRelayLinkStartStop :: bool
  v2_powerOnRelayDelay :: u8
  v2_displayBrightness :: u8
  v2_displaySleepDelay :: u8
  v2_screensaverEnabled :: bool
  v2_autoDimDelay :: u8
  v2_showRuntime :: bool
  v2_errorDisplayEnabled :: bool
  v2_errorDisplayDuration :: u8
  v2_autoStandbyDelay :: u8
  v2_autoStart :: bool
  v2_autoBoot :: bool
  v2_pitchResetOnStop :: bool
  v2_speeds :: "nat \<Rightarrow> 'f SpeedSettings"
  v2_presetNames :: "nat \<Rightarrow> string"
  v2_totalRuntime :: u32
  v2_reverseEncoder :: bool
  v2_pitchStepSize :: 'f
  v2_rampType :: u8
  v2_screensaverMode :: u8
  v2_enable78rpm :: bool
  v2_currentSpeed :: u32

record 'f GlobalSettingsV3 =
  v3_schemaVersion :: u32
  v3_phaseMode :: u8
  v3_maxAmplitude :: u8
  v3_softStartCurve :: u8
  v3_smoothSwitching :: bool
  v3_switchRampDuration :: u8
  v3_brakeMode :: u8
  v3_brakeDuration :: 'f
  v3_brakePulseGap :: 'f
  v3_brakeStartFreq :: 'f
  v3_brakeStopFreq :: 'f
  v3_relayActiveHigh :: bool
  v3_muteRelayLinkStandby :: bool
  v3_muteRelayLinkStartStop :: bool
  v3_powerOnRelayDelay :: u8
  v3_displayBrightness :: u8
  v3_displaySleepDelay :: u8
  v3_screensaverEnabled :: bool
  v3_autoDimDelay :: u8
  v3_showRuntime :: bool
  v3_errorDisplayEnabled :: bool
  v3_errorDisplayDuration :: u8
  v3_autoStandbyDelay :: u8
  v3_autoStart :: bool
  v3_autoBoot :: bool
  v3_pitchResetOnStop :: bool
  v3_speeds :: "nat \<Rightarrow> 'f SpeedSettings"
  v3_presetNames :: "nat \<Rightarrow> string"
  v3_totalRuntime :: u32
  v3_reverseEncoder :: bool
  v3_pitchStepSize :: 'f
  v3_rampType :: u8
  v3_screensaverMode :: u8
  v3_enable78rpm :: bool
  v3_freqDependentAmplitude :: u8
  v3_currentSpeed :: u32

section \<open>settings.cpp: the class Settings\<close>

text \<open>
  A \<open>float\<close> read back from flash can be any bit pattern.  \<open>cfloat\<close> has the finite
  values, the two infinities and NaN; a comparison with NaN is false, and adding a
  finite constant leaves an infinity or NaN as it is.  (The sign of a zero is not kept:
  no comparison of \<open>validate\<close> tells the two zeros apart.)
\<close>

datatype cfloat = Fin real | PInf | NInf | NaN

fun fl_lt :: "cfloat \<Rightarrow> cfloat \<Rightarrow> bool" where
  "fl_lt (Fin x) (Fin y) = (x < y)"
| "fl_lt NaN y = False"
| "fl_lt x NaN = False"
| "fl_lt x NInf = False"
| "fl_lt NInf y = True"
| "fl_lt PInf y = False"
| "fl_lt (Fin x) PInf = True"

definition fl_gt :: "cfloat \<Rightarrow> cfloat \<Rightarrow> bool" where
  "fl_gt x y = fl_lt y x"

fun fl_ge :: "cfloat \<Rightarrow> cfloat \<Rightarrow> bool" where
  "fl_ge (Fin x) (Fin y) = (x \<ge> y)"
| "fl_ge NaN y = False"
| "fl_ge x NaN = False"
| "fl_ge PInf y = True"
| "fl_ge x NInf = True"
| "fl_ge NInf y = False"
| "fl_ge (Fin x) PInf = False"

text \<open>
  The arithmetic of the target: \<open>float\<close> is IEEE 754 binary32, \<open>double\<close> is binary64,
  and a result is rounded to the nearest value of the format, to the one with an even
  significand when two are equally near.  \<open>roundEven m\<close> is that rounding of \<open>m\<close> to an
  integer.  \<open>roundBinary p emin x\<close> rounds \<open>x\<close> to the format with \<open>p\<close> significant bits
  whose subnormal values are the multiples of \<open>2 ^ emin\<close>: the values of the format near
  \<open>x\<close> are the multiples of \<open>2 ^ max (\<lfloor>log 2 \<bar>x\<bar>\<rfloor> - p + 1) emin\<close>.  A binary32 result of
  magnitude \<open>2 ^ 128\<close> is an infinity.
\<close>

definition roundEven :: "real \<Rightarrow> int" where
  "roundEven m =
     (let f = \<lfloor>m\<rfloor>; d = m - of_int f
      in if d < 1/2 then f else if 1/2 < d then f + 1 else if even f then f else f + 1)"

definition roundBinary :: "nat \<Rightarrow> int \<Rightarrow> real \<Rightarrow> real" where
  "roundBinary p emin x =
     (if x = 0 then 0
      else let u = 2 powr of_int (max (\<lfloor>log 2 \<bar>x\<bar>\<rfloor> - int p + 1) emin)
           in of_int (roundEven (x / u)) * u)"

definition to_double :: "real \<Rightarrow> real" where
  "to_double x = roundBinary 53 (- 1074) x"

definition to_float :: "real \<Rightarrow> cfloat" where
  "to_float x =
     (let y = roundBinary 24 (- 149) x
      in if 2 ^ 128 \<le> y then PInf else if y \<le> - (2 ^ 128) then NInf else Fin y)"

text \<open>\<open>x += c\<close> and \<open>x -= c\<close> for a \<open>float\<close> \<open>x\<close> and a \<open>double\<close> constant \<open>c\<close>: the sum is
  computed in \<open>double\<close> (it is far below the largest \<open>double\<close>) and converted to
  \<open>float\<close>.\<close>

fun fl_add :: "cfloat \<Rightarrow> real \<Rightarrow> cfloat" where
  "fl_add (Fin x) c = to_float (to_double (x + c))"
| "fl_add PInf c = PInf"
| "fl_add NInf c = NInf"
| "fl_add NaN c = NaN"

text \<open>
  The filesystem: whether LittleFS is mounted, and the bytes of each file.  A file can be
  opened only on a mounted filesystem.  The layout of the structs in memory (their sizes,
  the struct a sequence of bytes is read as, the bytes a struct is written as) is the
  compiler's and is a parameter \<open>L\<close> of every function that reads or writes a file.
\<close>

record 'f layout =
  sizeof_GlobalSettings :: nat
  sizeof_GlobalSettingsV2 :: nat
  sizeof_GlobalSettingsV3 :: nat
  as_GlobalSettings :: "u8 list \<Rightarrow> 'f GlobalSettings"
  as_GlobalSettingsV2 :: "u8 list \<Rightarrow> 'f GlobalSettingsV2"
  as_GlobalSettingsV3 :: "u8 list \<Rightarrow> 'f GlobalSettingsV3"
  as_uint32 :: "u8 list \<Rightarrow> u32"
  bytes_of :: "'f GlobalSettings \<Rightarrow> u8 list"

record Settings =
  data :: "cfloat GlobalSettings"
  lastRuntimeUpdate :: u32
  sessionRuntime :: u32
  fs_mounted :: bool
  fs_files :: "string \<rightharpoonup> u8 list"

definition settings_filename :: string where
  "settings_filename = ''/settings.bin''"

fun show_nat :: "nat \<Rightarrow> string" where
  "show_nat n = (if n < 10 then [''0123456789'' ! n]
                 else show_nat (n div 10) @ [''0123456789'' ! (n mod 10)])"

declare show_nat.simps [simp del]

definition presetPath :: "u8 \<Rightarrow> string" where
  "presetPath slot = ''/preset_'' @ show_nat (unat slot) @ ''.bin''"

text \<open>\<open>f.read(buf, n) == n\<close> holds when the file has at least \<open>n\<close> bytes left; the
  bytes read are then the first \<open>n\<close>.\<close>

definition readExact :: "nat \<Rightarrow> u8 list \<Rightarrow> u8 list option" where
  "readExact n bytes = (if n \<le> length bytes then Some (take n bytes) else None)"

definition openRead :: "Settings \<Rightarrow> string \<Rightarrow> u8 list option" where
  "openRead st path = (if fs_mounted st then fs_files st path else None)"

text \<open>\<open>loadFromSlot(slot, target)\<close>: \<open>Some target\<close> when it returns true, \<open>None\<close> when it
  returns false.\<close>

definition loadFromSlot :: "cfloat layout \<Rightarrow> u8 \<Rightarrow> Settings \<Rightarrow> cfloat GlobalSettings option" where
  "loadFromSlot L slot st =
     (case openRead st (presetPath slot) of
        None \<Rightarrow> None
      | Some bytes \<Rightarrow>
          (case readExact (sizeof_GlobalSettings L) bytes of
             None \<Rightarrow> None
           | Some b \<Rightarrow> Some (as_GlobalSettings L b)))"

definition save :: "cfloat layout \<Rightarrow> Settings \<Rightarrow> Settings" where
  "save L st =
     (if fs_mounted st
      then st\<lparr>fs_files := (fs_files st)(settings_filename \<mapsto> bytes_of L (data st))\<rparr>
      else st)"

text \<open>\<open>setDefaults\<close>, over the representation of a \<open>float\<close>: \<open>lit\<close> is the value of a
  floating literal.\<close>

definition defaultSpeed ::
    "(real \<Rightarrow> 'f) \<Rightarrow> real \<Rightarrow> real \<Rightarrow> real \<Rightarrow> real \<Rightarrow> u8 \<Rightarrow> 'f SpeedSettings \<Rightarrow> 'f SpeedSettings" where
  "defaultSpeed lit f fmin fmax soft reduced s =
     s\<lparr>frequency := lit f, minFrequency := lit fmin, maxFrequency := lit fmax,
       softStartDuration := lit soft, reducedAmplitude := reduced, amplitudeDelay := 5,
       startupKick := 1, startupKickDuration := 1, startupKickRampDuration := lit 1,
       filterType := 0, iirAlpha := lit (1/2), firProfile := 1,
       phaseOffset := (phaseOffset s)(0 := lit 0, 1 := lit 90, 2 := lit 120, 3 := lit 240)\<rparr>"

definition setDefaults :: "(real \<Rightarrow> 'f) \<Rightarrow> 'f GlobalSettings \<Rightarrow> 'f GlobalSettings" where
  "setDefaults lit d =
     d\<lparr>schemaVersion := SETTINGS_SCHEMA_VERSION,
       presetNames := (\<lambda>i. if i < 5 then ''Preset '' @ show_nat (i + 1) else presetNames d i),
       phaseMode := DEFAULT_PHASE_MODE,
       maxAmplitude := 100,
       softStartCurve := 0,
       smoothSwitching := True,
       switchRampDuration := 2,
       brakeMode := BRAKE_RAMP,
       brakeDuration := lit 2,
       brakePulseGap := lit (1/2),
       brakeStartFreq := lit 50,
       brakeStopFreq := lit 0,
       relayActiveHigh := True,
       muteRelayLinkStandby := True,
       muteRelayLinkStartStop := True,
       powerOnRelayDelay := 2,
       autoStandbyDelay := 0,
       autoDimDelay := 0,
       autoStart := False,
       autoBoot := False,
       displaySleepDelay := 0,
       screensaverEnabled := True,
       errorDisplayEnabled := True,
       errorDisplayDuration := 10,
       showRuntime := True,
       pitchResetOnStop := True,
       currentSpeed := DEFAULT_SPEED_INDEX,
       speeds := (speeds d)
         (0 := defaultSpeed lit 50 40 60 1 80 (speeds d 0),
          1 := defaultSpeed lit 67.5 57.5 77.5 1 80 (speeds d 1),
          2 := defaultSpeed lit 113.5 100 130 1.5 90 (speeds d 2)),
       enable78rpm := True,
       totalRuntime := 0,
       displayBrightness := 255,
       reverseEncoder := False,
       pitchStepSize := lit (1/10),
       rampType := 1,
       screensaverMode := 0,
       freqDependentAmplitude := 0,
       bootSpeed := 3\<rparr>"

definition resetDefaults :: "cfloat layout \<Rightarrow> Settings \<Rightarrow> Settings" where
  "resetDefaults L st = save L (st\<lparr>data := setDefaults Fin (data st)\<rparr>)"

text \<open>\<open>validate\<close>.  The two loops that normalise a phase offset need not end (an
  infinite offset is never changed by the subtraction, and neither is a finite one so
  large that the difference rounds back to it), so each loop and \<open>validate\<close> return an
  option: \<open>None\<close> is a call that does not return.\<close>

partial_function (option) normaliseHigh :: "cfloat \<Rightarrow> cfloat option" where
  "normaliseHigh x = (if fl_ge x (Fin 360) then normaliseHigh (fl_add x (- 360)) else Some x)"

partial_function (option) normaliseLow :: "cfloat \<Rightarrow> cfloat option" where
  "normaliseLow x = (if fl_lt x (Fin 0) then normaliseLow (fl_add x 360) else Some x)"

definition normalisePhase :: "cfloat \<Rightarrow> cfloat option" where
  "normalisePhase x = Option.bind (normaliseHigh x) normaliseLow"

definition validateSpeed :: "cfloat SpeedSettings \<Rightarrow> cfloat SpeedSettings option" where
  "validateSpeed s =
     (let s1 = (if fl_gt (minFrequency s) (maxFrequency s)
                then s\<lparr>minFrequency := maxFrequency s, maxFrequency := minFrequency s\<rparr>
                else s);
          s2 = (if fl_lt (frequency s1) (minFrequency s1)
                then s1\<lparr>frequency := minFrequency s1\<rparr> else s1);
          s3 = (if fl_gt (frequency s2) (maxFrequency s2)
                then s2\<lparr>frequency := maxFrequency s2\<rparr> else s2);
          s4 = (if fl_lt (softStartDuration s3) (Fin 0)
                then s3\<lparr>softStartDuration := Fin 0\<rparr> else s3)
      in Option.bind (normalisePhase (phaseOffset s4 0)) (\<lambda>p0.
         Option.bind (normalisePhase (phaseOffset s4 1)) (\<lambda>p1.
         Option.bind (normalisePhase (phaseOffset s4 2)) (\<lambda>p2.
         Option.bind (normalisePhase (phaseOffset s4 3)) (\<lambda>p3.
           Some (s4\<lparr>phaseOffset := (phaseOffset s4)(0 := p0, 1 := p1, 2 := p2, 3 := p3)\<rparr>))))))"

definition validate :: "cfloat layout \<Rightarrow> Settings \<Rightarrow> Settings option" where
  "validate L st =
     (let st1 = (if schemaVersion (data st) \<noteq> SETTINGS_SCHEMA_VERSION
                 then resetDefaults L st else st);
          d1 = data st1;
          d2 = (if currentSpeed d1 > SPEED_78 then d1\<lparr>currentSpeed := SPEED_33\<rparr> else d1);
          d3 = (if maxAmplitude d2 > 100 then d2\<lparr>maxAmplitude := 100\<rparr> else d2)
      in Option.bind (validateSpeed (speeds d3 0)) (\<lambda>sp0.
         Option.bind (validateSpeed (speeds d3 1)) (\<lambda>sp1.
         Option.bind (validateSpeed (speeds d3 2)) (\<lambda>sp2.
           Some (st1\<lparr>data := d3\<lparr>speeds := (speeds d3)(0 := sp0, 1 := sp1, 2 := sp2)\<rparr>\<rparr>)))))"

text \<open>\<open>loadPreset(slot)\<close>.  \<open>Returns b st'\<close> is a call that returns \<open>b\<close> and leaves the object
  \<open>st'\<close>.  \<open>_data = temp\<close> is executed before \<open>validate()\<close> is called, so a call in which
  \<open>validate\<close> does not return has already overwritten the settings: \<open>NoReturn st'\<close> is
  such a call, with \<open>st'\<close> the object on entry to \<open>validate\<close>.\<close>

datatype LoadPresetOutcome = Returns bool Settings | NoReturn Settings

definition loadPreset :: "cfloat layout \<Rightarrow> u8 \<Rightarrow> Settings \<Rightarrow> LoadPresetOutcome" where
  "loadPreset L slot st =
     (if MAX_PRESET_SLOTS \<le> unat slot then Returns False st
      else case loadFromSlot L slot st of
             Some temp \<Rightarrow>
               (case validate L (st\<lparr>data := temp\<rparr>) of
                  Some st' \<Rightarrow> Returns True st'
                | None \<Rightarrow> NoReturn (st\<lparr>data := temp\<rparr>))
           | None \<Rightarrow> Returns False st)"

text \<open>\<open>migrate(oldVersion, f)\<close>, with \<open>bytes\<close> the contents of the file \<open>f\<close> from its
  position, which \<open>load\<close> has set to 0.\<close>

definition migrate :: "cfloat layout \<Rightarrow> u32 \<Rightarrow> u8 list \<Rightarrow> Settings \<Rightarrow> bool \<times> Settings" where
  "migrate L oldVersion bytes st =
     (let st0 = st\<lparr>data := setDefaults Fin (data st)\<rparr>;
          d = data st0
      in if oldVersion = 2 then
           (case readExact (sizeof_GlobalSettingsV2 L) bytes of
              None \<Rightarrow> (False, st0)
            | Some b \<Rightarrow>
               (let v2 = as_GlobalSettingsV2 L b
                in (True, save L (st0\<lparr>data := d
                     \<lparr>phaseMode := v2_phaseMode v2,
                      maxAmplitude := v2_maxAmplitude v2,
                      softStartCurve := v2_softStartCurve v2,
                      smoothSwitching := v2_smoothSwitching v2,
                      switchRampDuration := v2_switchRampDuration v2,
                      brakeMode := v2_brakeMode v2,
                      brakeDuration := v2_brakeDuration v2,
                      brakePulseGap := v2_brakePulseGap v2,
                      brakeStartFreq := v2_brakeStartFreq v2,
                      brakeStopFreq := v2_brakeStopFreq v2,
                      relayActiveHigh := v2_relayActiveHigh v2,
                      muteRelayLinkStandby := v2_muteRelayLinkStandby v2,
                      muteRelayLinkStartStop := v2_muteRelayLinkStartStop v2,
                      powerOnRelayDelay := v2_powerOnRelayDelay v2,
                      displayBrightness := v2_displayBrightness v2,
                      displaySleepDelay := v2_displaySleepDelay v2,
                      screensaverEnabled := v2_screensaverEnabled v2,
                      autoDimDelay := v2_autoDimDelay v2,
                      showRuntime := v2_showRuntime v2,
                      errorDisplayEnabled := v2_errorDisplayEnabled v2,
                      errorDisplayDuration := v2_errorDisplayDuration v2,
                      autoStandbyDelay := v2_autoStandbyDelay v2,
                      autoStart := v2_autoStart v2,
                      autoBoot := v2_autoBoot v2,
                      pitchResetOnStop := v2_pitchResetOnStop v2,
                      speeds := (\<lambda>i. if i < 3 then v2_speeds v2 i else speeds d i),
                      presetNames := (\<lambda>i. if i < 5 then v2_presetNames v2 i else presetNames d i),
                      totalRuntime := v2_totalRuntime v2,
                      reverseEncoder := v2_reverseEncoder v2,
                      pitchStepSize := v2_pitchStepSize v2,
                      rampType := v2_rampType v2,
                      screensaverMode := v2_screensaverMode v2,
                      enable78rpm := v2_enable78rpm v2,
                      currentSpeed := v2_currentSpeed v2\<rparr>\<rparr>))))
         else if oldVersion = 3 then
           (case readExact (sizeof_GlobalSettingsV3 L) bytes of
              None \<Rightarrow> (False, st0)
            | Some b \<Rightarrow>
               (let v3 = as_GlobalSettingsV3 L b
                in (True, save L (st0\<lparr>data := d
                     \<lparr>phaseMode := v3_phaseMode v3,
                      maxAmplitude := v3_maxAmplitude v3,
                      softStartCurve := v3_softStartCurve v3,
                      smoothSwitching := v3_smoothSwitching v3,
                      switchRampDuration := v3_switchRampDuration v3,
                      brakeMode := v3_brakeMode v3,
                      brakeDuration := v3_brakeDuration v3,
                      brakePulseGap := v3_brakePulseGap v3,
                      brakeStartFreq := v3_brakeStartFreq v3,
                      brakeStopFreq := v3_brakeStopFreq v3,
                      relayActiveHigh := v3_relayActiveHigh v3,
                      muteRelayLinkStandby := v3_muteRelayLinkStandby v3,
                      muteRelayLinkStartStop := v3_muteRelayLinkStartStop v3,
                      powerOnRelayDelay := v3_powerOnRelayDelay v3,
                      displayBrightness := v3_displayBrightness v3,
                      displaySleepDelay := v3_displaySleepDelay v3,
                      screensaverEnabled := v3_screensaverEnabled v3,
                      autoDimDelay := v3_autoDimDelay v3,
                      showRuntime := v3_showRuntime v3,
                      errorDisplayEnabled := v3_errorDisplayEnabled v3,
                      errorDisplayDuration := v3_errorDisplayDuration v3,
                      autoStandbyDelay := v3_autoStandbyDelay v3,
                      autoStart := v3_autoStart v3,
                      autoBoot := v3_autoBoot v3,
                      pitchResetOnStop := v3_pitchResetOnStop v3,
                      speeds := (\<lambda>i. if i < 3 then v3_speeds v3 i else speeds d i),
                      presetNames := (\<lambda>i. if i < 5 then v3_presetNames v3 i else presetNames d i),
                      totalRuntime := v3_totalRuntime v3,
                      reverseEncoder := v3_reverseEncoder v3,
                      pitchStepSize := v3_pitchStepSize v3,
                      rampType := v3_rampType v3,
                      screensaverMode := v3_screensaverMode v3,
                      enable78rpm := v3_enable78rpm v3,
                      freqDependentAmplitude := v3_freqDependentAmplitude v3,
                      currentSpeed := v3_currentSpeed v3\<rparr>\<rparr>))))
         else (False, st0))"

text \<open>\<open>load\<close>: the file is read at the version found in its first four bytes.  When
  \<open>migrate\<close> fails or the version is newer, the defaults are restored.\<close>

definition load :: "cfloat layout \<Rightarrow> Settings \<Rightarrow> Settings option" where
  "load L st =
     (case openRead st settings_filename of
        None \<Rightarrow> Some (resetDefaults L st)
      | Some bytes \<Rightarrow>
         (case readExact 4 bytes of
            None \<Rightarrow> Some (resetDefaults L st)
          | Some vb \<Rightarrow>
             (let version = as_uint32 L vb
              in if version < SETTINGS_SCHEMA_VERSION then
                   (case migrate L version bytes st of
                      (True, st') \<Rightarrow> Some st'
                    | (False, st') \<Rightarrow> Some (resetDefaults L st'))
                 else if version > SETTINGS_SCHEMA_VERSION then Some (resetDefaults L st)
                 else (case readExact (sizeof_GlobalSettings L) bytes of
                         Some b \<Rightarrow> validate L (st\<lparr>data := as_GlobalSettings L b\<rparr>)
                       | None \<Rightarrow> Some (resetDefaults L st)))))"

text \<open>The objects are globals, so the members their constructors do not assign are zero:
  \<open>Settings::Settings()\<close> assigns \<open>_sessionRuntime\<close> only.  LittleFS is mounted by
  \<open>Settings::begin\<close>.\<close>

definition SpeedSettings_zero :: "(real \<Rightarrow> 'f) \<Rightarrow> 'f SpeedSettings" where
  "SpeedSettings_zero lit =
     \<lparr>frequency = lit 0, minFrequency = lit 0, maxFrequency = lit 0,
      phaseOffset = (\<lambda>_. lit 0), softStartDuration = lit 0, reducedAmplitude = 0,
      amplitudeDelay = 0, startupKick = 0, startupKickDuration = 0,
      startupKickRampDuration = lit 0, filterType = 0, iirAlpha = lit 0, firProfile = 0\<rparr>"

definition GlobalSettings_zero :: "(real \<Rightarrow> 'f) \<Rightarrow> 'f GlobalSettings" where
  "GlobalSettings_zero lit =
     \<lparr>schemaVersion = 0, phaseMode = 0, maxAmplitude = 0, softStartCurve = 0,
      smoothSwitching = False, switchRampDuration = 0, brakeMode = 0,
      brakeDuration = lit 0, brakePulseGap = lit 0, brakeStartFreq = lit 0,
      brakeStopFreq = lit 0, relayActiveHigh = False, muteRelayLinkStandby = False,
      muteRelayLinkStartStop = False, powerOnRelayDelay = 0, displayBrightness = 0,
      displaySleepDelay = 0, screensaverEnabled = False, autoDimDelay = 0,
      showRuntime = False, errorDisplayEnabled = False, errorDisplayDuration = 0,
      autoStandbyDelay = 0, autoStart = False, autoBoot = False, pitchResetOnStop = False,
      speeds = (\<lambda>_. SpeedSettings_zero lit), presetNames = (\<lambda>_. []), totalRuntime = 0,
      reverseEncoder = False, pitchStepSize = lit 0, rampType = 0, screensaverMode = 0,
      enable78rpm = False, freqDependentAmplitude = 0, bootSpeed = 0, currentSpeed = 0\<rparr>"

definition Settings_init :: Settings where
  "Settings_init = \<lparr>data = GlobalSettings_zero Fin, lastRuntimeUpdate = 0,
     sessionRuntime = 0, fs_mounted = False, fs_files = Map.empty\<rparr>"

text \<open>Concrete inputs for the examples below: a version-2 and a version-3 struct as the
  older firmware would have saved them, and a layout under which a file of at least 8
  bytes reads as the version-2 struct.\<close>

definition exampleV2 :: "cfloat GlobalSettingsV2" where
  "exampleV2 =
     \<lparr>v2_schemaVersion = 2, v2_phaseMode = 2, v2_maxAmplitude = 90, v2_softStartCurve = 0,
      v2_smoothSwitching = True, v2_switchRampDuration = 3, v2_brakeMode = 1,
      v2_brakeDuration = Fin 4, v2_brakePulseGap = Fin (1/2), v2_brakeStartFreq = Fin 50,
      v2_brakeStopFreq = Fin 0, v2_relayActiveHigh = False, v2_muteRelayLinkStandby = True,
      v2_muteRelayLinkStartStop = False, v2_powerOnRelayDelay = 1, v2_displayBrightness = 128,
      v2_displaySleepDelay = 0, v2_screensaverEnabled = False, v2_autoDimDelay = 5,
      v2_showRuntime = True, v2_errorDisplayEnabled = True, v2_errorDisplayDuration = 3,
      v2_autoStandbyDelay = 10, v2_autoStart = False, v2_autoBoot = True,
      v2_pitchResetOnStop = False,
      v2_speeds = (\<lambda>_. (SpeedSettings_zero Fin)\<lparr>frequency := Fin 60, minFrequency := Fin 50,
                      maxFrequency := Fin 70\<rparr>),
      v2_presetNames = (\<lambda>_. ''Mine''), v2_totalRuntime = 1234, v2_reverseEncoder = True,
      v2_pitchStepSize = Fin (1/4), v2_rampType = 0, v2_screensaverMode = 2,
      v2_enable78rpm = False, v2_currentSpeed = 1\<rparr>"

definition exampleV3 :: "cfloat GlobalSettingsV3" where
  "exampleV3 =
     \<lparr>v3_schemaVersion = 3, v3_phaseMode = 2, v3_maxAmplitude = 90, v3_softStartCurve = 0,
      v3_smoothSwitching = True, v3_switchRampDuration = 3, v3_brakeMode = 1,
      v3_brakeDuration = Fin 4, v3_brakePulseGap = Fin (1/2), v3_brakeStartFreq = Fin 50,
      v3_brakeStopFreq = Fin 0, v3_relayActiveHigh = False, v3_muteRelayLinkStandby = True,
      v3_muteRelayLinkStartStop = False, v3_powerOnRelayDelay = 1, v3_displayBrightness = 128,
      v3_displaySleepDelay = 0, v3_screensaverEnabled = False, v3_autoDimDelay = 5,
      v3_showRuntime = True, v3_errorDisplayEnabled = True, v3_errorDisplayDuration = 3,
      v3_autoStandbyDelay = 10, v3_autoStart = False, v3_autoBoot = True,
      v3_pitchResetOnStop = False,
      v3_speeds = (\<lambda>_. (SpeedSettings_zero Fin)\<lparr>frequency := Fin 60, minFrequency := Fin 50,
                      maxFrequency := Fin 70\<rparr>),
      v3_presetNames = (\<lambda>_. ''Mine''), v3_totalRuntime = 1234, v3_reverseEncoder = True,
      v3_pitchStepSize = Fin (1/4), v3_rampType = 0, v3_screensaverMode = 2,
      v3_enable78rpm = False, v3_freqDependentAmplitude = 20, v3_currentSpeed = 1\<rparr>"

definition exampleLayout :: "cfloat layout" where
  "exampleLayout =
     \<lparr>sizeof_GlobalSettings = 12, sizeof_GlobalSettingsV2 = 8, sizeof_GlobalSettingsV3 = 10,
      as_GlobalSettings = (\<lambda>_. setDefaults Fin (GlobalSettings_zero Fin)),
      as_GlobalSettingsV2 = (\<lambda>_. exampleV2),
      as_GlobalSettingsV3 = (\<lambda>_. exampleV3),
      as_uint32 = (\<lambda>b. ucast (hd b)),
      bytes_of = (\<lambda>d. replicate 12 (ucast (schemaVersion d)))\<rparr>"

text \<open>The default configuration on a mounted filesystem, with one phase offset of the
  33 rpm profile and the minimum frequency of the 45 rpm profile being NaN.\<close>

definition nanSettings :: Settings where
  "nanSettings =
     (let d = setDefaults Fin (GlobalSettings_zero Fin)
      in Settings_init
           \<lparr>data := d\<lparr>speeds := (speeds d)
                (0 := (speeds d 0)\<lparr>phaseOffset := (phaseOffset (speeds d 0))(1 := NaN)\<rparr>,
                 1 := (speeds d 1)\<lparr>minFrequency := NaN\<rparr>)\<rparr>,
            fs_mounted := True\<rparr>)"

text \<open>A preset in slot 2 whose first phase offset of the 33 rpm profile is \<open>2 ^ 34\<close>
  (as \<open>set phase1 17179869184\<close> followed by saving the preset leaves it), a layout under
  which the 12 bytes of the preset file read as that configuration, and a \<open>Settings\<close>
  object holding the defaults on a filesystem with that file.\<close>

definition bigOffsetPreset :: "cfloat GlobalSettings" where
  "bigOffsetPreset =
     (let d = setDefaults Fin (GlobalSettings_zero Fin)
      in d\<lparr>speeds := (speeds d)
           (0 := (speeds d 0)\<lparr>phaseOffset := (phaseOffset (speeds d 0))(0 := Fin 17179869184)\<rparr>)\<rparr>)"

definition bigOffsetLayout :: "cfloat layout" where
  "bigOffsetLayout = exampleLayout\<lparr>as_GlobalSettings := (\<lambda>_. bigOffsetPreset)\<rparr>"

definition presetState :: Settings where
  "presetState =
     Settings_init\<lparr>data := setDefaults Fin (GlobalSettings_zero Fin), fs_mounted := True,
                    fs_files := [''/preset_2.bin'' \<mapsto> replicate 12 0]\<rparr>"
section \<open>motor.h, motor.cpp, error_handler.cpp, ui.cpp: the control core\<close>

datatype MotorState =
  STATE_STANDBY | STATE_STOPPED | STATE_STARTING | STATE_RUNNING | STATE_STOPPING

datatype ErrorCode =
  ERR_NONE | ERR_SYSTEM_FREEZE | ERR_MOTOR_STALL | ERR_SETTINGS_CORRUPT | ERR_I2C_FAILURE
  | ERR_OUT_OF_MEMORY

fun errorCodeValue :: "ErrorCode \<Rightarrow> nat" where
  "errorCodeValue ERR_NONE = 0"
| "errorCodeValue ERR_SYSTEM_FREEZE = 1"
| "errorCodeValue ERR_MOTOR_STALL = 2"
| "errorCodeValue ERR_SETTINGS_CORRUPT = 3"
| "errorCodeValue ERR_I2C_FAILURE = 4"
| "errorCodeValue ERR_OUT_OF_MEMORY = 5"

definition PIN_RELAY_STANDBY :: nat where "PIN_RELAY_STANDBY = 16"
definition PIN_MUTE_PHASE_A :: nat where "PIN_MUTE_PHASE_A = 17"
definition PIN_MUTE_PHASE_B :: nat where "PIN_MUTE_PHASE_B = 18"
definition PIN_MUTE_PHASE_C :: nat where "PIN_MUTE_PHASE_C = 19"
definition PIN_MUTE_PHASE_D :: nat where "PIN_MUTE_PHASE_D = 20"

record MotorController =
  m_state :: MotorState
  currentSpeedMode :: u32
  currentFreq :: real
  targetFreq :: real
  currentAmp :: real
  targetAmp :: real
  pitchRange :: int
  stateStartTime :: u32
  isKicking :: bool
  kickEndTime :: u32
  ampReductionStartTime :: u32
  isReducedAmp :: bool
  brakePulseLastToggle :: u32
  brakePulseState :: bool
  relaysActive :: bool
  relayStageTime :: u32
  relayStage :: int
  powerOnDelayActive :: bool
  powerOnTime :: u32
  isSpeedRamping :: bool
  rampStartFreq :: real
  rampTargetFreq :: real
  rampStartTime :: u32
  rampDuration :: real
  isKickRamping :: bool
  kickRampStartFreq :: real
  kickRampStartTime :: u32
  kickRampDuration :: real
  settingsDirty :: bool
  lastSettingsChange :: u32

text \<open>
  The state of the control core: the global objects \<open>settings\<close>, \<open>waveform\<close>, \<open>motor\<close>,
  \<open>ui\<close> and \<open>errorHandler\<close>, the shared status variables, and the hardware as the code
  sees it: the millisecond clock, the level of each output pin (\<open>True\<close> is HIGH), and
  the files.  Here the settings file is the struct last written to it, and the error
  log and its backup are their text.  Output to the serial console is left out.
\<close>

record System =
  settings :: "real GlobalSettings"
  s_lastRuntimeUpdate :: u32
  s_sessionRuntime :: u32
  waveform :: WaveformGenerator
  motor :: MotorController
  currentMotorState :: MotorState
  currentFrequency :: real
  currentPitchPercent :: real
  ui_showingError :: bool
  ui_errorMsg :: string
  ui_errorDuration :: u32
  ui_errorStartTime :: u32
  eh_criticalError :: bool
  millis :: u32
  pins :: "nat \<Rightarrow> bool"
  littlefs_mounted :: bool
  file_settings :: "real GlobalSettings option"
  file_error_log :: "string option"
  file_error_bak :: "string option"

definition getCurrentSpeedSettings :: "'f GlobalSettings \<Rightarrow> 'f SpeedSettings" where
  "getCurrentSpeedSettings d = speeds d (unat (currentSpeed d))"

definition digitalWrite :: "nat \<Rightarrow> bool \<Rightarrow> System \<Rightarrow> System" where
  "digitalWrite pin level s = s\<lparr>pins := (pins s)(pin := level)\<rparr>"

definition sys_setFrequency :: "real \<Rightarrow> System \<Rightarrow> System" where
  "sys_setFrequency f s = s\<lparr>waveform := setFrequency f (waveform s)\<rparr>"

definition sys_setAmplitude :: "real \<Rightarrow> System \<Rightarrow> System" where
  "sys_setAmplitude a s = s\<lparr>waveform := setAmplitude a (waveform s)\<rparr>"

definition sys_setEnabled :: "bool \<Rightarrow> System \<Rightarrow> System" where
  "sys_setEnabled e s = s\<lparr>waveform := setEnabled e (waveform s)\<rparr>"

text \<open>\<open>Settings::save\<close> and \<open>Settings::updateRuntime\<close> as the control core uses them.\<close>

definition settings_save :: "System \<Rightarrow> System" where
  "settings_save s =
     (if littlefs_mounted s then s\<lparr>file_settings := Some (settings s)\<rparr> else s)"

definition updateRuntime :: "System \<Rightarrow> System" where
  "updateRuntime s =
     (let now = millis s in
      if now - s_lastRuntimeUpdate s \<ge> 1000 then
        (let seconds = (now - s_lastRuntimeUpdate s) div 1000
         in s\<lparr>s_lastRuntimeUpdate := now,
              s_sessionRuntime := s_sessionRuntime s + seconds,
              settings := (settings s)\<lparr>totalRuntime := totalRuntime (settings s) + seconds\<rparr>\<rparr>)
      else s)"

text \<open>\<open>MotorController::setRelays(active)\<close>.\<close>

definition setRelays :: "bool \<Rightarrow> System \<Rightarrow> System" where
  "setRelays active0 s =
     (let activeHigh = relayActiveHigh (settings s);
          delayMs = (ucast (powerOnRelayDelay (settings s)) :: u32) * 1000;
          inDelay = (powerOnDelayActive (motor s) \<and> millis s - powerOnTime (motor s) < delayMs);
          active = (if inDelay then False else active0);
          s1 = (if powerOnDelayActive (motor s) \<and> \<not> inDelay
                then s\<lparr>motor := (motor s)\<lparr>powerOnDelayActive := False\<rparr>\<rparr> else s);
          s2 = (if active
                then s1\<lparr>motor := (motor s1)\<lparr>relaysActive := True, relayStage := 0,
                                             relayStageTime := millis s1\<rparr>\<rparr>
                else digitalWrite PIN_MUTE_PHASE_D (\<not> activeHigh)
                      (digitalWrite PIN_MUTE_PHASE_C (\<not> activeHigh)
                        (digitalWrite PIN_MUTE_PHASE_B (\<not> activeHigh)
                          (digitalWrite PIN_MUTE_PHASE_A (\<not> activeHigh)
                            (s1\<lparr>motor := (motor s1)\<lparr>relaysActive := False,
                                                        relayStage := 0\<rparr>\<rparr>)))))
      in if muteRelayLinkStandby (settings s) \<and> active
         then digitalWrite PIN_RELAY_STANDBY activeHigh s2 else s2)"

text \<open>\<open>UserInterface::showError\<close>, \<open>ErrorHandler::logToFile\<close> and
  \<open>ErrorHandler::report\<close>.\<close>

definition showError :: "string \<Rightarrow> u32 \<Rightarrow> System \<Rightarrow> System" where
  "showError msg duration s =
     setRelays False
       (s\<lparr>ui_errorMsg := msg, ui_errorDuration := duration,
          ui_errorStartTime := millis s, ui_showingError := True\<rparr>)"

definition logToFile :: "ErrorCode \<Rightarrow> string \<Rightarrow> System \<Rightarrow> System" where
  "logToFile code message s =
     (if \<not> littlefs_mounted s then s
      else
        (let s1 = (case file_error_log s of
                     None \<Rightarrow> s
                   | Some txt \<Rightarrow>
                       if length txt > 10240
                       then s\<lparr>file_error_bak := Some txt, file_error_log := None\<rparr>
                       else s);
             old = (case file_error_log s1 of None \<Rightarrow> [] | Some txt \<Rightarrow> txt)
         in s1\<lparr>file_error_log :=
               Some (old @ show_nat (unat (millis s)) @ '','' @ show_nat (errorCodeValue code)
                       @ '','' @ message @ [CHR 0x0D, CHR 0x0A])\<rparr>))"

definition report :: "ErrorCode \<Rightarrow> string \<Rightarrow> bool \<Rightarrow> System \<Rightarrow> System" where
  "report code message critical s =
     (let s1 = (if critical then s\<lparr>eh_criticalError := True\<rparr> else s);
          s2 = logToFile code message s1
      in if errorDisplayEnabled (settings s2) then
           (let duration0 = (ucast (errorDisplayDuration (settings s2)) :: u32) * 1000;
                duration = (if critical \<and> duration0 < 10000 then 10000 else duration0)
            in showError message duration s2)
         else s2)"

text \<open>Pitch and settings.\<close>

definition setPitch :: "real \<Rightarrow> System \<Rightarrow> System" where
  "setPitch percent s = s\<lparr>currentPitchPercent := percent\<rparr>"

definition resetPitch :: "System \<Rightarrow> System" where
  "resetPitch s = s\<lparr>currentPitchPercent := 0\<rparr>"

definition togglePitchRange :: "System \<Rightarrow> System" where
  "togglePitchRange s =
     (let r = pitchRange (motor s) + 10
      in s\<lparr>motor := (motor s)\<lparr>pitchRange := (if r > 50 then 10 else r)\<rparr>\<rparr>)"

definition adjustPitchFreq :: "real \<Rightarrow> System \<Rightarrow> System" where
  "adjustPitchFreq deltaHz s =
     (let baseFreq = frequency (getCurrentSpeedSettings (settings s));
          currentPitchHz = baseFreq * (currentPitchPercent s / 100);
          newPitchHz0 = currentPitchHz + deltaHz;
          maxPitchHz = baseFreq * (real_of_int (pitchRange (motor s)) / 100);
          newPitchHz1 = (if newPitchHz0 > maxPitchHz then maxPitchHz else newPitchHz0);
          newPitchHz = (if newPitchHz1 < - maxPitchHz then - maxPitchHz else newPitchHz1)
      in s\<lparr>currentPitchPercent := (newPitchHz / baseFreq) * 100\<rparr>)"

definition applySettings :: "System \<Rightarrow> System" where
  "applySettings s =
     (let sp = getCurrentSpeedSettings (settings s);
          f = frequency sp
      in s\<lparr>motor := (motor s)\<lparr>targetFreq := f, currentFreq := f\<rparr>,
           currentFrequency := f,
           waveform := updateSettings f sp (waveform s)\<rparr>)"

text \<open>\<open>MotorController::start\<close>.\<close>

definition start :: "System \<Rightarrow> System" where
  "start s =
     (if m_state (motor s) = STATE_RUNNING \<or> m_state (motor s) = STATE_STARTING then s
      else
        (let s1 = applySettings
                    (s\<lparr>motor := (motor s)\<lparr>m_state := STATE_STARTING,
                                               stateStartTime := millis s\<rparr>\<rparr>);
             s2 = s1\<lparr>motor := (motor s1)
                     \<lparr>targetAmp := real (unat (maxAmplitude (settings s1))) / 100,
                      currentAmp := 0, isReducedAmp := False\<rparr>\<rparr>;
             sp = getCurrentSpeedSettings (settings s2);
             s3 = (if startupKick sp > 1
                   then sys_setFrequency (targetFreq (motor s2) * real (unat (startupKick sp)))
                          (s2\<lparr>motor := (motor s2)
                               \<lparr>isKicking := True,
                                kickEndTime := millis s2
                                   + (ucast (startupKickDuration sp) :: u32) * 1000\<rparr>\<rparr>)
                   else sys_setFrequency (targetFreq (motor s2))
                          (s2\<lparr>motor := (motor s2)\<lparr>isKicking := False\<rparr>\<rparr>));
             s4 = (if muteRelayLinkStartStop (settings s3) then setRelays True s3 else s3)
         in sys_setAmplitude 0 (sys_setEnabled True s4)))"

text \<open>\<open>calculateSoftStartAmp\<close> and \<open>handleBraking\<close>.\<close>

definition calculateSoftStartAmp :: "real \<Rightarrow> real \<Rightarrow> System \<Rightarrow> real" where
  "calculateSoftStartAmp elapsed duration s =
     (let t0 = elapsed / duration;
          t = (if t0 > 1 then 1 else t0)
      in if rampType (settings s) = RAMP_SCURVE
         then targetAmp (motor s) * ((1/2) * (1 - cos (pi * t)))
         else targetAmp (motor s) * t)"

definition handleBraking :: "u32 \<Rightarrow> System \<Rightarrow> System" where
  "handleBraking now s =
     (let duration = brakeDuration (settings s) * 1000;
          elapsed = real (unat (now - stateStartTime (motor s)))
      in if elapsed \<ge> duration then
           (let s1 = sys_setEnabled False
                       (s\<lparr>motor := (motor s)\<lparr>m_state := STATE_STOPPED, currentAmp := 0\<rparr>\<rparr>);
                s2 = (if muteRelayLinkStartStop (settings s1) then setRelays False s1 else s1)
            in sys_setFrequency \<bar>targetFreq (motor s2)\<bar> s2)
         else if brakeMode (settings s) = BRAKE_RAMP then
           (let startF = brakeStartFreq (settings s);
                stopF = brakeStopFreq (settings s);
                currentF = startF - ((startF - stopF) * (elapsed / duration));
                s1 = sys_setFrequency currentF s;
                amp = targetAmp (motor s1) * (1 - (elapsed / duration))
            in sys_setAmplitude amp (s1\<lparr>motor := (motor s1)\<lparr>currentAmp := amp\<rparr>\<rparr>))
         else if brakeMode (settings s) = BRAKE_PULSE then
           (let gap = brakePulseGap (settings s) * 1000
            in if real (unat (now - brakePulseLastToggle (motor s))) \<ge> gap then
                 (let st = \<not> brakePulseState (motor s);
                      s1 = s\<lparr>motor := (motor s)\<lparr>brakePulseLastToggle := now,
                                                  brakePulseState := st\<rparr>\<rparr>
                  in if st then sys_setAmplitude (targetAmp (motor s1)) s1
                     else sys_setAmplitude 0 s1)
               else s)
         else
           (let amp = targetAmp (motor s) * (1 - (elapsed / duration))
            in sys_setAmplitude amp (s\<lparr>motor := (motor s)\<lparr>currentAmp := amp\<rparr>\<rparr>)))"

text \<open>\<open>MotorController::update\<close>.  The branch \<open>STATE_STARTING\<close> is its numbered parts
  in turn: the startup kick, the kick ramp, the soft start of the amplitude, and the
  frequency dependent amplitude.\<close>

definition starting_kick :: "u32 \<Rightarrow> System \<Rightarrow> System" where
  "starting_kick now s =
     (if isKicking (motor s) \<and> now \<ge> kickEndTime (motor s) then
        (let sp = getCurrentSpeedSettings (settings s);
             s0 = s\<lparr>motor := (motor s)\<lparr>isKicking := False\<rparr>\<rparr>
         in if startupKickRampDuration sp > 0
            then s0\<lparr>motor := (motor s0)
                   \<lparr>kickRampDuration := startupKickRampDuration sp * 1000,
                    kickRampStartTime := now,
                    kickRampStartFreq := getFrequency (waveform s0),
                    isKickRamping := True\<rparr>\<rparr>
            else sys_setFrequency (targetFreq (motor s0)) s0)
      else s)"

definition starting_kickRamp :: "u32 \<Rightarrow> System \<Rightarrow> System" where
  "starting_kickRamp now s =
     (if isKickRamping (motor s) then
        (let elapsed = real (unat (now - kickRampStartTime (motor s)))
         in if elapsed \<ge> kickRampDuration (motor s)
            then sys_setFrequency (targetFreq (motor s))
                   (s\<lparr>motor := (motor s)\<lparr>isKickRamping := False\<rparr>\<rparr>)
            else
              (let t = elapsed / kickRampDuration (motor s);
                   currentF = kickRampStartFreq (motor s)
                      - ((kickRampStartFreq (motor s) - targetFreq (motor s)) * t)
               in sys_setFrequency currentF s))
      else if \<not> isKicking (motor s) then
        (if getFrequency (waveform s) \<noteq> targetFreq (motor s)
         then sys_setFrequency (targetFreq (motor s)) s else s)
      else s)"

definition starting_softStart :: "u32 \<Rightarrow> System \<Rightarrow> System" where
  "starting_softStart now s =
     (let duration = softStartDuration (getCurrentSpeedSettings (settings s)) * 1000;
          elapsed = real (unat (now - stateStartTime (motor s)))
      in if elapsed \<ge> duration
         then s\<lparr>motor := (motor s)\<lparr>m_state := STATE_RUNNING,
                                     currentAmp := targetAmp (motor s),
                                     ampReductionStartTime := now\<rparr>\<rparr>
         else s\<lparr>motor := (motor s)
                 \<lparr>currentAmp := calculateSoftStartAmp elapsed duration s\<rparr>\<rparr>)"

definition starting_fda :: "System \<Rightarrow> System" where
  "starting_fda s =
     (if freqDependentAmplitude (settings s) > 0 then
        (let fdaRatio = real (unat (freqDependentAmplitude (settings s))) / 100;
             r0 = (if targetFreq (motor s) > 1/10
                   then getFrequency (waveform s) / targetFreq (motor s) else 0);
             r1 = (if targetFreq (motor s) > 1/10 \<and> r0 > 1 then 1 else r0);
             freqRatio = (if targetFreq (motor s) > 1/10 \<and> r1 < 0 then 0 else r1);
             scaleFactor = fdaRatio + ((1 - fdaRatio) * freqRatio)
         in s\<lparr>motor := (motor s)\<lparr>currentAmp := currentAmp (motor s) * scaleFactor\<rparr>\<rparr>)
      else s)"

definition update_starting :: "u32 \<Rightarrow> System \<Rightarrow> System" where
  "update_starting now s =
     (let s4 = starting_fda (starting_softStart now (starting_kickRamp now (starting_kick now s)))
      in sys_setAmplitude (currentAmp (motor s4)) s4)"

text \<open>The branch \<open>STATE_RUNNING\<close>: the pitch and frequency update, the reduced amplitude,
  the speed switching ramp, and the runtime counter.\<close>

definition running_pitch :: "System \<Rightarrow> System" where
  "running_pitch s =
     (let baseFreq = frequency (getCurrentSpeedSettings (settings s));
          pitchMod = baseFreq * (currentPitchPercent s / 100);
          s0 = s\<lparr>motor := (motor s)\<lparr>targetFreq := baseFreq + pitchMod\<rparr>\<rparr>
      in if currentFreq (motor s0) \<noteq> targetFreq (motor s0)
         then (sys_setFrequency (targetFreq (motor s0))
                 (s0\<lparr>motor := (motor s0)\<lparr>currentFreq := targetFreq (motor s0)\<rparr>\<rparr>))
                \<lparr>currentFrequency := targetFreq (motor s0)\<rparr>
         else s0)"

definition running_reducedAmp :: "u32 \<Rightarrow> System \<Rightarrow> System" where
  "running_reducedAmp now s =
     (if \<not> isReducedAmp (motor s) then
        (let delayMs = (ucast (amplitudeDelay (getCurrentSpeedSettings (settings s))) :: u32)
                         * 1000
         in if now - ampReductionStartTime (motor s) \<ge> delayMs then
              (let reducePercent =
                     real (unat (reducedAmplitude (getCurrentSpeedSettings (settings s)))) / 100;
                   amp = targetAmp (motor s) * reducePercent
               in sys_setAmplitude amp
                    (s\<lparr>motor := (motor s)\<lparr>isReducedAmp := True, currentAmp := amp\<rparr>\<rparr>))
            else s)
      else s)"

definition running_speedRamp :: "u32 \<Rightarrow> System \<Rightarrow> System" where
  "running_speedRamp now s =
     (if isSpeedRamping (motor s) then
        (let elapsed = real (unat (now - rampStartTime (motor s)))
         in if elapsed \<ge> rampDuration (motor s)
            then sys_setFrequency (rampTargetFreq (motor s))
                   (s\<lparr>motor := (motor s)\<lparr>isSpeedRamping := False,
                                             currentFreq := rampTargetFreq (motor s)\<rparr>\<rparr>)
            else
              (let t = elapsed / rampDuration (motor s);
                   currentF = rampStartFreq (motor s)
                      + ((rampTargetFreq (motor s) - rampStartFreq (motor s)) * t)
               in (sys_setFrequency currentF s)
                    \<lparr>motor := (motor s)\<lparr>currentFreq := currentF\<rparr>\<rparr>))
      else s)"

definition update_running :: "u32 \<Rightarrow> System \<Rightarrow> System" where
  "update_running now s =
     updateRuntime (running_speedRamp now (running_reducedAmp now (running_pitch s)))"

text \<open>The relay staggering and the deferred save, which follow the state machine in
  every call.\<close>

definition relayStagger :: "u32 \<Rightarrow> System \<Rightarrow> System" where
  "relayStagger now s =
     (if relaysActive (motor s) \<and> relayStage (motor s) < 4 \<and>
         now - relayStageTime (motor s) > 100 then
        (let stage = relayStage (motor s) + 1;
             s1 = s\<lparr>motor := (motor s)\<lparr>relayStageTime := now, relayStage := stage\<rparr>\<rparr>;
             activeHigh = relayActiveHigh (settings s1)
         in if stage = 1 then digitalWrite PIN_MUTE_PHASE_A activeHigh s1
            else if stage = 2 then digitalWrite PIN_MUTE_PHASE_B activeHigh s1
            else if stage = 3 then digitalWrite PIN_MUTE_PHASE_C activeHigh s1
            else if stage = 4 then digitalWrite PIN_MUTE_PHASE_D activeHigh s1
            else s1)
      else s)"

definition deferredSave :: "u32 \<Rightarrow> System \<Rightarrow> System" where
  "deferredSave now s =
     (if settingsDirty (motor s) \<and> now - lastSettingsChange (motor s) > 2000
      then (let s1 = settings_save s in s1\<lparr>motor := (motor s1)\<lparr>settingsDirty := False\<rparr>\<rparr>)
      else s)"

definition update :: "System \<Rightarrow> System" where
  "update s =
     (let now = millis s;
          s1 = (case m_state (motor s) of
                  STATE_STANDBY \<Rightarrow> s
                | STATE_STOPPED \<Rightarrow> s
                | STATE_STARTING \<Rightarrow> update_starting now s
                | STATE_RUNNING \<Rightarrow> update_running now s
                | STATE_STOPPING \<Rightarrow> handleBraking now s);
          s2 = s1\<lparr>currentMotorState := m_state (motor s1)\<rparr>
      in deferredSave now (relayStagger now s2))"

text \<open>\<open>MotorController::stop\<close>, \<open>toggleStandby\<close> and \<open>setSpeed\<close>.\<close>

definition stop :: "System \<Rightarrow> System" where
  "stop s =
     (if m_state (motor s) = STATE_STOPPED \<or> m_state (motor s) = STATE_STANDBY then s
      else
        (let s1 = s\<lparr>motor := (motor s)\<lparr>m_state := STATE_STOPPING,
                                          stateStartTime := millis s\<rparr>\<rparr>;
             s2 = (if brakeMode (settings s1) = BRAKE_PULSE then
                     sys_setAmplitude (targetAmp (motor s1))
                       (sys_setFrequency (- targetFreq (motor s1))
                          (s1\<lparr>motor := (motor s1)\<lparr>brakePulseState := True,
                                                      brakePulseLastToggle := millis s1\<rparr>\<rparr>))
                   else if brakeMode (settings s1) = BRAKE_RAMP then
                     sys_setFrequency (brakeStartFreq (settings s1)) s1
                   else s1)
         in if pitchResetOnStop (settings s2) then resetPitch s2 else s2))"

definition toggleStandby :: "System \<Rightarrow> System" where
  "toggleStandby s =
     (let s' =
        (if m_state (motor s) = STATE_STANDBY then
           (let s1 = s\<lparr>motor := (motor s)\<lparr>m_state := STATE_STOPPED\<rparr>\<rparr>
            in if muteRelayLinkStandby (settings s1) \<and> \<not> muteRelayLinkStartStop (settings s1)
               then setRelays True s1 else setRelays False s1)
         else
           (let s1 = stop s;
                s2 = s1\<lparr>motor := (motor s1)\<lparr>m_state := STATE_STANDBY\<rparr>\<rparr>;
                s3 = (if muteRelayLinkStandby (settings s2) then setRelays False s2 else s2);
                s4 = s3\<lparr>s_sessionRuntime := 0\<rparr>
            in settings_save s4))
      in s'\<lparr>currentMotorState := m_state (motor s')\<rparr>)"

definition setSpeed :: "u32 \<Rightarrow> System \<Rightarrow> System" where
  "setSpeed mode s =
     (if currentSpeedMode (motor s) = mode then s
      else
        (let s1 = applySettings (s\<lparr>motor := (motor s)\<lparr>currentSpeedMode := mode\<rparr>\<rparr>);
             baseFreq = frequency (getCurrentSpeedSettings (settings s1));
             pitchMod = baseFreq * (currentPitchPercent s1 / 100);
             newTarget = baseFreq + pitchMod;
             s2 = (if m_state (motor s1) = STATE_RUNNING then
                     (if smoothSwitching (settings s1) then
                        s1\<lparr>motor := (motor s1)
                             \<lparr>isSpeedRamping := True,
                              rampStartFreq := getFrequency (waveform s1),
                              rampTargetFreq := newTarget,
                              rampStartTime := millis s1,
                              rampDuration :=
                                real (unat (switchRampDuration (settings s1))) * 1000\<rparr>\<rparr>
                      else sys_setFrequency newTarget
                             (s1\<lparr>motor := (motor s1)\<lparr>targetFreq := newTarget,
                                                         currentFreq := newTarget\<rparr>\<rparr>))
                   else s1\<lparr>motor := (motor s1)\<lparr>targetFreq := newTarget\<rparr>\<rparr>)
         in s2\<lparr>settings := (settings s2)\<lparr>currentSpeed := mode\<rparr>,
               motor := (motor s2)\<lparr>settingsDirty := True, lastSettingsChange := millis s2\<rparr>\<rparr>))"

text \<open>The system at power-on, with the default configuration in \<open>settings\<close>: the
  constructors have run (the motor is in standby, every pin is low), \<open>motor.begin\<close> has
  muted the relays and applied the settings of the boot speed, and \<open>waveform.begin\<close>
  has built the sine table and filled both buffers.\<close>

definition MotorController_init :: MotorController where
  "MotorController_init =
     \<lparr>m_state = STATE_STANDBY, currentSpeedMode = SPEED_33, currentFreq = 50, targetFreq = 50,
      currentAmp = 0, targetAmp = 0, pitchRange = 10, stateStartTime = 0, isKicking = False,
      kickEndTime = 0, ampReductionStartTime = 0, isReducedAmp = False,
      brakePulseLastToggle = 0, brakePulseState = False, relaysActive = False,
      relayStageTime = 0, relayStage = 0, powerOnDelayActive = True, powerOnTime = 0,
      isSpeedRamping = False, rampStartFreq = 0, rampTargetFreq = 0, rampStartTime = 0,
      rampDuration = 0, isKickRamping = False, kickRampStartFreq = 0, kickRampStartTime = 0,
      kickRampDuration = 0, settingsDirty = False, lastSettingsChange = 0\<rparr>"

definition System_init :: System where
  "System_init =
     \<lparr>settings = setDefaults (\<lambda>x. x) (GlobalSettings_zero (\<lambda>x. x)),
      s_lastRuntimeUpdate = 0, s_sessionRuntime = 0,
      waveform = WaveformGenerator_init, motor = MotorController_init,
      currentMotorState = STATE_STANDBY, currentFrequency = 50, currentPitchPercent = 0,
      ui_showingError = False, ui_errorMsg = [], ui_errorDuration = 0, ui_errorStartTime = 0,
      eh_criticalError = False, millis = 0, pins = (\<lambda>_. False), littlefs_mounted = True,
      file_settings = None, file_error_log = None, file_error_bak = None\<rparr>"

definition waveform_begin :: "WaveformGenerator \<Rightarrow> WaveformGenerator" where
  "waveform_begin g = fillBuffer 1 (fillBuffer 0 (generateLUT g))"

definition motor_begin :: "System \<Rightarrow> System" where
  "motor_begin s =
     (let s1 = setRelays False
                 (s\<lparr>motor := (motor s)\<lparr>relaysActive := False, relayStage := 0\<rparr>\<rparr>);
          s2 = s1\<lparr>motor := (motor s1)
                  \<lparr>currentSpeedMode := (if bootSpeed (settings s1) \<le> 2
                                         then ucast (bootSpeed (settings s1))
                                         else currentSpeed (settings s1))\<rparr>\<rparr>;
          s3 = applySettings s2
      in if autoStart (settings s3) then start s3 else s3)"

definition System_boot :: System where
  "System_boot = (motor_begin System_init)\<lparr>waveform := waveform_begin (waveform (motor_begin System_init))\<rparr>"

text \<open>The passing of time: the clock is set by the hardware between two calls.\<close>

definition at_time :: "u32 \<Rightarrow> System \<Rightarrow> System" where
  "at_time t s = s\<lparr>millis := t\<rparr>"

text \<open>A session: five seconds after power-on the user wakes the controller and starts the
  motor; the control loop runs \<open>update\<close> at 5.2 s, 5.4 s, 5.6 s, 5.8 s (one mute relay is
  released at each) and at 6.1 s, when the soft start of one second is over and the
  motor is running.\<close>

definition runningSystem :: System where
  "runningSystem =
     update (at_time 6100
       (update (at_time 5800
       (update (at_time 5600
       (update (at_time 5400
       (update (at_time 5200
       (start (toggleStandby (at_time 5000 System_boot))))))))))))"

text \<open>What holds during the session above while the relays are being released: the
  settings are the defaults, \<open>k\<close> mute relays have been released, the last of them at
  time \<open>t\<close>, and the pending synthesis parameters are those of 33 rpm.\<close>

definition sineTable :: "nat \<Rightarrow> int" where
  "sineTable j = trunc (sin ((2 * pi * real j) / real lutSize) * 511)"

definition defaultSettings :: "real GlobalSettings" where
  "defaultSettings = setDefaults (\<lambda>x. x) (GlobalSettings_zero (\<lambda>x. x))"

definition sessionAt :: "nat \<Rightarrow> u32 \<Rightarrow> MotorState \<Rightarrow> System \<Rightarrow> bool" where
  "sessionAt k t st s \<longleftrightarrow>
     settings s = defaultSettings \<and> m_state (motor s) = st \<and>
     stateStartTime (motor s) = 5000 \<and> relaysActive (motor s) \<and>
     relayStage (motor s) = int k \<and> relayStageTime (motor s) = t \<and>
     \<not> settingsDirty (motor s) \<and> \<not> isSpeedRamping (motor s) \<and>
     \<not> isKicking (motor s) \<and> \<not> isKickRamping (motor s) \<and>
     pitchRange (motor s) = 10 \<and> currentPitchPercent s = 0 \<and>
     currentFreq (motor s) = 50 \<and> targetFreq (motor s) = 50 \<and> targetAmp (motor s) = 1 \<and>
     pins s = (\<lambda>p. p = 16 \<or> (17 \<le> p \<and> p < 17 + k)) \<and>
     enabled (waveform s) \<and> swapPending (waveform s) \<and>
     phaseAcc (waveform s) 0 = 0 \<and>
     (\<forall>j < lutSize. lut (waveform s) j = sineTable j) \<and>
     iirPrev (waveform s) = (\<lambda>_. 0) \<and>
     ws_frequency (pendingState (waveform s)) = 50 \<and>
     ws_filterType (pendingState (waveform s)) = FILTER_NONE \<and>
     ws_phaseOffsets (pendingState (waveform s)) 1 = 1073741824 \<and>
     (st = STATE_RUNNING \<longrightarrow> ws_amplitude (pendingState (waveform s)) = 1)"

text \<open>The generator after \<open>waveform.begin\<close> at power-on.\<close>

definition wave0 :: WaveformGenerator where
  "wave0 = waveform_begin (updateSettings 50 (speeds defaultSettings 0) WaveformGenerator_init)"

text \<open>The 33 rpm profile with the IIR filter selected, and a generator used through its
  public interface: built, started with \<open>begin\<close>, configured with that profile, set to
  full amplitude and enabled, and refilled once.  \<open>setFrequency\<close> has not been called, so
  the phase increment is still the 0 of the constructor.\<close>

definition iirSpeed :: "real SpeedSettings" where
  "iirSpeed = (speeds defaultSettings 0)\<lparr>filterType := 1\<rparr>"

definition iirGenerator :: WaveformGenerator where
  "iirGenerator =
     fillBuffer 1 (setEnabled True (setAmplitude 1
       (configure iirSpeed (waveform_begin WaveformGenerator_init))))"

text \<open>Channel B filtered by the IIR filter at a constant phase of 90 degrees.\<close>

definition iirConstant :: "WaveformGenerator \<Rightarrow> bool" where
  "iirConstant g \<longleftrightarrow>
     ws_filterType (activeState g) = FILTER_IIR \<and> ws_iirAlpha (activeState g) = 1/2 \<and>
     ws_amplitude (activeState g) = 1 \<and> ws_phaseInc (activeState g) = 0 \<and>
     phaseAcc g 0 = 0 \<and> ws_phaseOffsets (activeState g) 1 = 1073741824 \<and>
     lut g 4096 = 511 \<and> 0 \<le> iirPrev g 1"

section \<open>The disabled refill\<close>

lemma zeroLoop_frame:
  "phaseAcc (zeroLoop b i g) = phaseAcc g \<and> iirPrev (zeroLoop b i g) = iirPrev g \<and>
   firBuffer (zeroLoop b i g) = firBuffer g \<and> enabled (zeroLoop b i g) = enabled g \<and>
   activeState (zeroLoop b i g) = activeState g \<and> pendingState (zeroLoop b i g) = pendingState g"
proof (induction b i g rule: zeroLoop.induct)
  case (1 b i g)
  show ?case
  proof (cases "i < DMA_BUFFER_SIZE")
    case True
    with "1" show ?thesis by (subst (1 2 3 4 5 6) zeroLoop.simps) simp
  next
    case False
    then show ?thesis by (subst (1 2 3 4 5 6) zeroLoop.simps) simp
  qed
qed

lemma zeroLoop_words:
  "dmaBufferSlice0 (zeroLoop b i g) b j =
     (if i \<le> j \<and> j < DMA_BUFFER_SIZE then 0 else dmaBufferSlice0 g b j) \<and>
   dmaBufferSlice1 (zeroLoop b i g) b j =
     (if i \<le> j \<and> j < DMA_BUFFER_SIZE then 0 else dmaBufferSlice1 g b j)"
proof (induction b i g rule: zeroLoop.induct)
  case (1 b i g)
  show ?case
  proof (cases "i < DMA_BUFFER_SIZE")
    case True
    with "1" show ?thesis
      by (subst (1 2) zeroLoop.simps) (auto simp: upd2_def)
  next
    case False
    then show ?thesis by (subst (1 2) zeroLoop.simps) auto
  qed
qed

text \<open>
  C3 (as the code has it).  A refill of buffer \<open>b\<close> while the generator is disabled
  writes the word 0 to each of the 256 entries of both slices' buffers (both 16-bit
  halves are 0, not 512), and leaves the master phase accumulator and the IIR and FIR
  histories as they were.
\<close>

theorem C3_disabled_refill:
  "\<not> enabled g \<Longrightarrow>
     (\<forall>i < DMA_BUFFER_SIZE.
        dmaBufferSlice0 (fillBuffer b g) b i = 0 \<and> dmaBufferSlice1 (fillBuffer b g) b i = 0 \<and>
        lowHalf (dmaBufferSlice0 (fillBuffer b g) b i) = 0 \<and>
        highHalf (dmaBufferSlice0 (fillBuffer b g) b i) = 0) \<and>
     phaseAcc (fillBuffer b g) = phaseAcc g \<and>
     iirPrev (fillBuffer b g) = iirPrev g \<and>
     firBuffer (fillBuffer b g) = firBuffer g"
  by (simp add: fillBuffer_def zeroLoop_frame zeroLoop_words lowHalf_def highHalf_def)

theorem C3_disabled_refill_witness:
  "\<not> enabled WaveformGenerator_init \<and>
   dmaBufferSlice1 (fillBuffer 1 WaveformGenerator_init) 1 255 = 0 \<and>
   phaseAcc (fillBuffer 1 WaveformGenerator_init) = phaseAcc WaveformGenerator_init"
proof -
  have e: "\<not> enabled WaveformGenerator_init"
    by (simp add: WaveformGenerator_init_def)
  have b: "(255::nat) < DMA_BUFFER_SIZE"
    by (simp add: DMA_BUFFER_SIZE_def)
  from C3_disabled_refill [OF e, of 1] b e show ?thesis
    by blast
qed

text \<open>
  C3 as the specification states it fails: after a disabled refill of the freshly
  constructed generator the first word of slice 0 is 0, so its halves are not the
  centre value 512.
\<close>

theorem C3_centre_counterexample:
  "\<not> enabled WaveformGenerator_init \<and>
   lowHalf (dmaBufferSlice0 (fillBuffer 0 WaveformGenerator_init) 0 0) \<noteq> 512 \<and>
   highHalf (dmaBufferSlice0 (fillBuffer 0 WaveformGenerator_init) 0 0) \<noteq> 512"
proof -
  have e: "\<not> enabled WaveformGenerator_init"
    by (simp add: WaveformGenerator_init_def)
  have b: "(0::nat) < DMA_BUFFER_SIZE"
    by (simp add: DMA_BUFFER_SIZE_def)
  have "dmaBufferSlice0 (fillBuffer 0 WaveformGenerator_init) 0 0 = 0"
    using e b zeroLoop_words [of 0 0 WaveformGenerator_init 0] by (simp add: fillBuffer_def)
  then show ?thesis
    using e by (simp add: lowHalf_def highHalf_def)
qed

section \<open>The enabled refill\<close>

lemma getSample_frame:
  "activeState (snd (getSample c g)) = activeState g \<and>
   pendingState (snd (getSample c g)) = pendingState g \<and>
   enabled (snd (getSample c g)) = enabled g \<and>
   swapPending (snd (getSample c g)) = swapPending g \<and>
   phaseAcc (snd (getSample c g)) = phaseAcc g \<and>
   lut (snd (getSample c g)) = lut g \<and>
   dmaBufferSlice0 (snd (getSample c g)) = dmaBufferSlice0 g \<and>
   dmaBufferSlice1 (snd (getSample c g)) = dmaBufferSlice1 g"
  by (simp add: getSample_def Let_def)

lemma synthTick_frame:
  "activeState (synthTick b i g) = activeState g \<and>
   pendingState (synthTick b i g) = pendingState g \<and>
   enabled (synthTick b i g) = enabled g \<and>
   swapPending (synthTick b i g) = swapPending g \<and>
   lut (synthTick b i g) = lut g"
  by (simp add: synthTick_def Let_def split_beta getSample_frame)

lemma synthTick_phaseAcc:
  "phaseAcc (synthTick b i g) 0 = phaseAcc g 0 + ws_phaseInc (activeState g)"
  by (simp add: synthTick_def Let_def split_beta getSample_frame)

lemma lowHalf_packWord: "lowHalf (packWord hi lo) = lo"
  unfolding lowHalf_def packWord_def
  by (rule bit_word_eqI) (auto simp: bit_simps)

lemma highHalf_packWord: "highHalf (packWord hi lo) = hi"
  unfolding highHalf_def packWord_def
  by (rule bit_word_eqI) (auto simp: bit_simps dest: bit_imp_le_length)

lemma clamp1023_le: "unat (clamp1023 v) \<le> 1023"
  by (auto simp: clamp1023_def word_less_nat_alt not_less word_le_nat_alt)

lemma packedOK_packWord: "packedOK (packWord (clamp1023 x) (clamp1023 y))"
  by (simp add: packedOK_def lowHalf_packWord highHalf_packWord clamp1023_le)

lemma synthTick_words:
  "(packedOK (dmaBufferSlice0 (synthTick b i g) b i) \<and>
    packedOK (dmaBufferSlice1 (synthTick b i g) b i)) \<and>
   (j \<noteq> i \<longrightarrow> dmaBufferSlice0 (synthTick b i g) b j = dmaBufferSlice0 g b j \<and>
              dmaBufferSlice1 (synthTick b i g) b j = dmaBufferSlice1 g b j)"
  by (simp add: synthTick_def Let_def split_beta getSample_frame upd2_def packedOK_packWord)

lemma fillLoop_frame:
  "activeState (fillLoop b i g) = activeState g \<and>
   pendingState (fillLoop b i g) = pendingState g \<and>
   enabled (fillLoop b i g) = enabled g \<and>
   swapPending (fillLoop b i g) = swapPending g \<and>
   lut (fillLoop b i g) = lut g"
proof (induction b i g rule: fillLoop.induct)
  case (1 b i g)
  show ?case
  proof (cases "i < DMA_BUFFER_SIZE")
    case True
    with "1" show ?thesis
      by (subst (1 2 3 4 5) fillLoop.simps) (simp add: synthTick_frame)
  next
    case False
    then show ?thesis by (subst (1 2 3 4 5) fillLoop.simps) simp
  qed
qed


lemma fillLoop_words:
  "(i \<le> j \<and> j < DMA_BUFFER_SIZE \<longrightarrow>
      packedOK (dmaBufferSlice0 (fillLoop b i g) b j) \<and>
      packedOK (dmaBufferSlice1 (fillLoop b i g) b j)) \<and>
   (j < i \<longrightarrow> dmaBufferSlice0 (fillLoop b i g) b j = dmaBufferSlice0 g b j \<and>
              dmaBufferSlice1 (fillLoop b i g) b j = dmaBufferSlice1 g b j)"
proof (induction b i g rule: fillLoop.induct)
  case (1 b i g)
  show ?case
  proof (cases "i < DMA_BUFFER_SIZE")
    case True
    note ih = "1" [OF True]
    show ?thesis
    proof (cases "j = i")
      case True
      with ih \<open>i < DMA_BUFFER_SIZE\<close> synthTick_words [of b i g j] show ?thesis
        by (subst (1 2 3 4) fillLoop.simps) simp
    next
      case False
      with ih \<open>i < DMA_BUFFER_SIZE\<close> synthTick_words [of b i g j] show ?thesis
        by (subst (1 2 3 4) fillLoop.simps) auto
    qed
  next
    case False
    then show ?thesis by (subst (1 2 3 4) fillLoop.simps) auto
  qed
qed

lemma handleStateSwap_frame:
  "enabled (handleStateSwap g) = enabled g \<and> phaseAcc (handleStateSwap g) = phaseAcc g \<and>
   iirPrev (handleStateSwap g) = iirPrev g \<and> firBuffer (handleStateSwap g) = firBuffer g \<and>
   lut (handleStateSwap g) = lut g \<and> \<not> swapPending (handleStateSwap g) \<and>
   activeState (handleStateSwap g) = (if swapPending g then pendingState g else activeState g)"
  by (simp add: handleStateSwap_def)







section \<open>The control core: a session from power-on to the running state\<close>

lemma defaultSettings_facts:
  "relayActiveHigh defaultSettings" "errorDisplayEnabled defaultSettings"
  "muteRelayLinkStandby defaultSettings" "muteRelayLinkStartStop defaultSettings"
  "powerOnRelayDelay defaultSettings = 2" "currentSpeed defaultSettings = 0"
  "freqDependentAmplitude defaultSettings = 0" "maxAmplitude defaultSettings = 100"
  "bootSpeed defaultSettings = 3" "\<not> autoStart defaultSettings" "phaseMode defaultSettings = 3"
  "getCurrentSpeedSettings defaultSettings = speeds defaultSettings 0"
  "frequency (speeds defaultSettings 0) = 50" "minFrequency (speeds defaultSettings 0) = 40"
  "maxFrequency (speeds defaultSettings 0) = 60"
  "softStartDuration (speeds defaultSettings 0) = 1"
  "startupKick (speeds defaultSettings 0) = 1"
  "filterType (speeds defaultSettings 0) = 0"
  "phaseOffset (speeds defaultSettings 0) 1 = 90"
  "phaseOffset (speeds defaultSettings 0) (Suc 0) = 90"
  "amplitudeDelay (speeds defaultSettings 0) = 5"
  by (simp_all add: defaultSettings_def setDefaults_def defaultSpeed_def
      getCurrentSpeedSettings_def DEFAULT_SPEED_INDEX_def DEFAULT_PHASE_MODE_def)

lemma generateLUT_loop_frame:
  "activeState (generateLUT_loop i g) = activeState g \<and>
   pendingState (generateLUT_loop i g) = pendingState g \<and>
   enabled (generateLUT_loop i g) = enabled g \<and>
   swapPending (generateLUT_loop i g) = swapPending g \<and>
   phaseAcc (generateLUT_loop i g) = phaseAcc g \<and>
   iirPrev (generateLUT_loop i g) = iirPrev g \<and>
   firBuffer (generateLUT_loop i g) = firBuffer g"
proof (induction i g rule: generateLUT_loop.induct)
  case (1 i g)
  show ?case
  proof (cases "i < lutSize")
    case True
    with "1" show ?thesis by (subst (1 2 3 4 5 6 7) generateLUT_loop.simps) simp
  next
    case False
    then show ?thesis by (subst (1 2 3 4 5 6 7) generateLUT_loop.simps) simp
  qed
qed

lemma generateLUT_loop_lut:
  "lut (generateLUT_loop i g) j = (if i \<le> j \<and> j < lutSize then sineTable j else lut g j)"
proof (induction i g rule: generateLUT_loop.induct)
  case (1 i g)
  show ?case
  proof (cases "i < lutSize")
    case True
    with "1" show ?thesis
      by (subst generateLUT_loop.simps) (auto simp: sineTable_def)
  next
    case False
    then show ?thesis by (subst generateLUT_loop.simps) auto
  qed
qed

lemma zeroLoop_lut: "lut (zeroLoop b i g) = lut g \<and> swapPending (zeroLoop b i g) = swapPending g"
proof (induction b i g rule: zeroLoop.induct)
  case (1 b i g)
  show ?case
  proof (cases "i < DMA_BUFFER_SIZE")
    case True
    with "1" show ?thesis by (subst (1 2) zeroLoop.simps) simp
  next
    case False
    then show ?thesis by (subst (1 2) zeroLoop.simps) simp
  qed
qed

lemma waveform_begin_frame:
  "\<not> enabled g \<Longrightarrow>
     activeState (waveform_begin g) = activeState g \<and>
     pendingState (waveform_begin g) = pendingState g \<and>
     \<not> enabled (waveform_begin g) \<and>
     swapPending (waveform_begin g) = swapPending g \<and>
     phaseAcc (waveform_begin g) = phaseAcc g \<and>
     iirPrev (waveform_begin g) = iirPrev g \<and>
     firBuffer (waveform_begin g) = firBuffer g \<and>
     (\<forall>j < lutSize. lut (waveform_begin g) j = sineTable j)"
  by (simp add: waveform_begin_def generateLUT_def fillBuffer_def zeroLoop_frame zeroLoop_lut
      generateLUT_loop_frame generateLUT_loop_lut)

lemma setRelays_False_init:
  "setRelays False System_init = System_init"
  by (simp add: setRelays_def System_init_def MotorController_init_def Let_def digitalWrite_def
      PIN_MUTE_PHASE_A_def PIN_MUTE_PHASE_B_def PIN_MUTE_PHASE_C_def PIN_MUTE_PHASE_D_def
      defaultSettings_def [symmetric] defaultSettings_facts fun_eq_iff)

lemma System_init_proj:
  "settings System_init = defaultSettings" "motor System_init = MotorController_init"
  "waveform System_init = WaveformGenerator_init" "millis System_init = 0"
  by (simp_all add: System_init_def defaultSettings_def)

lemma System_boot_eq:
  "System_boot = System_init
     \<lparr>waveform := waveform_begin (updateSettings 50 (speeds defaultSettings 0)
                     WaveformGenerator_init)\<rparr>"
proof -
  have r0: "System_init\<lparr>motor := (motor System_init)\<lparr>relaysActive := False, relayStage := 0\<rparr>\<rparr>
              = System_init"
    by (simp add: System_init_def MotorController_init_def)
  have r1: "System_init\<lparr>motor := MotorController_init\<lparr>currentSpeedMode := 0\<rparr>\<rparr> = System_init"
    by (simp add: System_init_def MotorController_init_def SPEED_33_def)
  have a: "applySettings System_init = System_init
     \<lparr>waveform := updateSettings 50 (speeds defaultSettings 0) WaveformGenerator_init\<rparr>"
    by (simp add: applySettings_def System_init_def MotorController_init_def Let_def
      defaultSettings_def [symmetric] defaultSettings_facts)
  have s: "settings (applySettings System_init) = defaultSettings"
    by (simp add: a System_init_proj)
  have m: "motor_begin System_init = applySettings System_init"
    unfolding motor_begin_def Let_def r0 setRelays_False_init
    by (simp add: System_init_proj defaultSettings_facts r1 s)
  show ?thesis
    by (simp add: System_boot_def m a)
qed

lemma wave0_facts:
  "\<not> enabled wave0" "phaseAcc wave0 = (\<lambda>_. 0)" "iirPrev wave0 = (\<lambda>_. 0)"
  "\<forall>j < lutSize. lut wave0 j = sineTable j"
  using waveform_begin_frame [of "updateSettings 50 (speeds defaultSettings 0) WaveformGenerator_init"]
  by (simp_all add: wave0_def updateSettings_def WaveformGenerator_init_def)

lemma phaseOffset_u32_90: "phaseOffset_u32 90 = 1073741824"
  by (simp add: phaseOffset_u32_def to_u32_def trunc_def)

lemma session_start:
  "sessionAt 0 5000 STATE_STARTING (start (toggleStandby (at_time 5000 System_boot)))"
proof -
  let ?w = "System_init\<lparr>waveform := wave0\<rparr>"
  have b: "System_boot = ?w" by (simp add: System_boot_eq wave0_def)
  have t: "toggleStandby (at_time 5000 ?w) =
      ?w\<lparr>millis := 5000, motor := MotorController_init\<lparr>m_state := STATE_STOPPED,
           powerOnDelayActive := False\<rparr>, currentMotorState := STATE_STOPPED\<rparr>"
    by (simp add: toggleStandby_def at_time_def setRelays_def Let_def digitalWrite_def
        System_init_def MotorController_init_def defaultSettings_def [symmetric]
        defaultSettings_facts fun_eq_iff
        PIN_MUTE_PHASE_A_def PIN_MUTE_PHASE_B_def PIN_MUTE_PHASE_C_def PIN_MUTE_PHASE_D_def)
  show ?thesis
    unfolding b t
    using wave0_facts
    by (simp add: sessionAt_def start_def applySettings_def setRelays_def Let_def digitalWrite_def
        sys_setFrequency_def sys_setAmplitude_def sys_setEnabled_def
        setFrequency_def setAmplitude_def setEnabled_def updateSettings_def
        System_init_def MotorController_init_def defaultSettings_def [symmetric]
        defaultSettings_facts fun_eq_iff phaseOffset_u32_90 FILTER_NONE_def
        PIN_RELAY_STANDBY_def)
qed

lemma numeral_le_unsigned_real:
  "(numeral n \<le> (unsigned w :: real)) \<longleftrightarrow> (numeral n \<le> unat w)"
proof -
  have "(unsigned w :: real) = real (unat w)" by simp
  then show ?thesis by (simp only: numeral_le_real_of_nat_iff)
qed

lemma session_update_starting:
  assumes "sessionAt k t STATE_STARTING s"
  shows "sessionAt k t (if 1000 \<le> unat (t' - 5000) then STATE_RUNNING else STATE_STARTING)
           (update_starting t' (at_time t' s)) \<and>
         millis (update_starting t' (at_time t' s)) = t'"
proof -
  let ?s = "at_time t' s"
  have k1: "starting_kick t' ?s = ?s"
    using assms by (simp add: starting_kick_def at_time_def sessionAt_def)
  have k2: "starting_kickRamp t' ?s = ?s"
    using assms by (simp add: starting_kickRamp_def at_time_def sessionAt_def getFrequency_def)
  have f: "\<And>x. settings x = defaultSettings \<Longrightarrow> starting_fda x = x"
    by (simp add: starting_fda_def defaultSettings_facts)
  have ss: "settings (starting_softStart t' ?s) = defaultSettings"
    using assms by (simp add: starting_softStart_def at_time_def sessionAt_def Let_def)
  show ?thesis
    unfolding update_starting_def Let_def k1 k2 f [OF ss]
    using assms
    by (simp add: sessionAt_def starting_softStart_def at_time_def Let_def sys_setAmplitude_def
        setAmplitude_def defaultSettings_facts numeral_le_unsigned_real)
qed

lemma session_stagger:
  assumes "sessionAt k t st s" and "k \<le> 4" and "millis s = t'"
  shows "sessionAt (if k < 4 \<and> t' - t > 100 then k + 1 else k)
           (if k < 4 \<and> t' - t > 100 then t' else t) st
           (deferredSave t' (relayStagger t' (s\<lparr>currentMotorState := m_state (motor s)\<rparr>)))"
proof -
  from assms(2) consider "k = 0" | "k = 1" | "k = 2" | "k = 3" | "k = 4" by linarith
  then show ?thesis
  proof cases
    case 1
    with assms show ?thesis
      by (simp add: sessionAt_def deferredSave_def relayStagger_def Let_def digitalWrite_def
          defaultSettings_facts PIN_MUTE_PHASE_A_def fun_eq_iff) auto
  next
    case 2
    with assms show ?thesis
      by (simp add: sessionAt_def deferredSave_def relayStagger_def Let_def digitalWrite_def
          defaultSettings_facts PIN_MUTE_PHASE_B_def fun_eq_iff) auto
  next
    case 3
    with assms show ?thesis
      by (simp add: sessionAt_def deferredSave_def relayStagger_def Let_def digitalWrite_def
          defaultSettings_facts PIN_MUTE_PHASE_C_def fun_eq_iff) auto
  next
    case 4
    with assms show ?thesis
      by (simp add: sessionAt_def deferredSave_def relayStagger_def Let_def digitalWrite_def
          defaultSettings_facts PIN_MUTE_PHASE_D_def fun_eq_iff) auto
  next
    case 5
    with assms show ?thesis
      by (simp add: sessionAt_def deferredSave_def relayStagger_def Let_def)
  qed
qed

lemma session_step:
  assumes "sessionAt k t STATE_STARTING s" and "k \<le> 4"
  shows "sessionAt (if k < 4 \<and> t' - t > 100 then k + 1 else k)
           (if k < 4 \<and> t' - t > 100 then t' else t)
           (if 1000 \<le> unat (t' - 5000) then STATE_RUNNING else STATE_STARTING)
           (update (at_time t' s))"
proof -
  have m: "m_state (motor (at_time t' s)) = STATE_STARTING" "millis (at_time t' s) = t'"
    using assms(1) by (simp_all add: sessionAt_def at_time_def)
  note u = session_update_starting [OF assms(1), of t']
  from session_stagger [OF conjunct1 [OF u] assms(2) conjunct2 [OF u]]
  show ?thesis
    by (simp add: update_def Let_def m)
qed

lemma runningSystem_session: "sessionAt 4 5800 STATE_RUNNING runningSystem"
proof -
  note s0 = session_start
  from session_step [OF s0, of 5200] have s1:
    "sessionAt 1 5200 STATE_STARTING
       (update (at_time 5200 (start (toggleStandby (at_time 5000 System_boot)))))"
    by simp
  from session_step [OF s1, of 5400] have s2:
    "sessionAt 2 5400 STATE_STARTING (update (at_time 5400
       (update (at_time 5200 (start (toggleStandby (at_time 5000 System_boot)))))))"
    by (simp add: numeral_2_eq_2 [symmetric])
  from session_step [OF s2, of 5600] have s3:
    "sessionAt 3 5600 STATE_STARTING (update (at_time 5600 (update (at_time 5400
       (update (at_time 5200 (start (toggleStandby (at_time 5000 System_boot)))))))))"
    by simp
  from session_step [OF s3, of 5800] have s4:
    "sessionAt 4 5800 STATE_STARTING (update (at_time 5800 (update (at_time 5600
       (update (at_time 5400
       (update (at_time 5200 (start (toggleStandby (at_time 5000 System_boot)))))))))))"
    by simp
  from session_step [OF s4, of 6100] show ?thesis
    by (simp add: runningSystem_def)
qed

section \<open>Error reports and the mute relays\<close>

lemma logToFile_frame:
  "settings (logToFile c m s) = settings s \<and> motor (logToFile c m s) = motor s \<and>
   pins (logToFile c m s) = pins s \<and> millis (logToFile c m s) = millis s \<and>
   waveform (logToFile c m s) = waveform s \<and>
   eh_criticalError (logToFile c m s) = eh_criticalError s"
  by (simp add: logToFile_def Let_def split: option.splits)

lemma setRelays_False_effect:
  "pins (setRelays False s) PIN_MUTE_PHASE_A = (\<not> relayActiveHigh (settings s)) \<and>
   pins (setRelays False s) PIN_MUTE_PHASE_B = (\<not> relayActiveHigh (settings s)) \<and>
   pins (setRelays False s) PIN_MUTE_PHASE_C = (\<not> relayActiveHigh (settings s)) \<and>
   pins (setRelays False s) PIN_MUTE_PHASE_D = (\<not> relayActiveHigh (settings s)) \<and>
   m_state (motor (setRelays False s)) = m_state (motor s) \<and>
   eh_criticalError (setRelays False s) = eh_criticalError s \<and>
   waveform (setRelays False s) = waveform s"
  by (simp add: setRelays_def Let_def digitalWrite_def PIN_MUTE_PHASE_A_def PIN_MUTE_PHASE_B_def
      PIN_MUTE_PHASE_C_def PIN_MUTE_PHASE_D_def)

lemma showError_effect:
  "pins (showError m d s) PIN_MUTE_PHASE_A = (\<not> relayActiveHigh (settings s)) \<and>
   pins (showError m d s) PIN_MUTE_PHASE_B = (\<not> relayActiveHigh (settings s)) \<and>
   pins (showError m d s) PIN_MUTE_PHASE_C = (\<not> relayActiveHigh (settings s)) \<and>
   pins (showError m d s) PIN_MUTE_PHASE_D = (\<not> relayActiveHigh (settings s)) \<and>
   m_state (motor (showError m d s)) = m_state (motor s) \<and>
   eh_criticalError (showError m d s) = eh_criticalError s \<and>
   waveform (showError m d s) = waveform s"
proof -
  define s3 where "s3 = s\<lparr>ui_errorMsg := m, ui_errorDuration := d,
      ui_errorStartTime := millis s, ui_showingError := True\<rparr>"
  have b: "settings s3 = settings s" "motor s3 = motor s" "waveform s3 = waveform s"
    "eh_criticalError s3 = eh_criticalError s"
    by (simp_all add: s3_def)
  have "showError m d s = setRelays False s3"
    by (simp add: showError_def s3_def)
  with setRelays_False_effect [of s3] b show ?thesis by simp
qed

lemma report_displayed:
  assumes "errorDisplayEnabled (settings s)"
  shows "pins (report c m critical s) PIN_MUTE_PHASE_A = (\<not> relayActiveHigh (settings s)) \<and>
   pins (report c m critical s) PIN_MUTE_PHASE_B = (\<not> relayActiveHigh (settings s)) \<and>
   pins (report c m critical s) PIN_MUTE_PHASE_C = (\<not> relayActiveHigh (settings s)) \<and>
   pins (report c m critical s) PIN_MUTE_PHASE_D = (\<not> relayActiveHigh (settings s)) \<and>
   m_state (motor (report c m critical s)) = m_state (motor s) \<and>
   waveform (report c m critical s) = waveform s \<and>
   (critical \<longrightarrow> eh_criticalError (report c m critical s))"
proof -
  define s2 where "s2 = logToFile c m (if critical then s\<lparr>eh_criticalError := True\<rparr> else s)"
  have a: "settings s2 = settings s" "motor s2 = motor s" "waveform s2 = waveform s"
    "critical \<longrightarrow> eh_criticalError s2"
    by (simp_all add: s2_def logToFile_frame)
  obtain d where r: "report c m critical s = showError m d s2"
    using assms a(1) by (simp add: report_def Let_def s2_def)
  show ?thesis
    unfolding r using showError_effect [of m d s2] a by simp
qed

lemma report_not_displayed:
  assumes "\<not> errorDisplayEnabled (settings s)"
  shows "pins (report c m critical s) = pins s \<and> motor (report c m critical s) = motor s \<and>
         waveform (report c m critical s) = waveform s \<and>
         (critical \<longrightarrow> eh_criticalError (report c m critical s))"
  using assms by (simp add: report_def Let_def logToFile_frame)

lemma runningSystem_facts:
  "settings runningSystem = defaultSettings" "m_state (motor runningSystem) = STATE_RUNNING"
  "pins runningSystem = (\<lambda>p. p = 16 \<or> (17 \<le> p \<and> p < 21))"
  "\<not> isSpeedRamping (motor runningSystem)" "pitchRange (motor runningSystem) = 10"
  "currentPitchPercent runningSystem = 0" "currentFreq (motor runningSystem) = 50"
  using runningSystem_session by (simp_all add: sessionAt_def)

section \<open>The running state: pitch and frequency\<close>

lemma running_pitch_effect:
  "targetFreq (motor (running_pitch s)) =
     frequency (getCurrentSpeedSettings (settings s))
       + frequency (getCurrentSpeedSettings (settings s)) * (currentPitchPercent s / 100) \<and>
   isSpeedRamping (motor (running_pitch s)) = isSpeedRamping (motor s) \<and>
   (currentFreq (motor s) \<noteq>
       frequency (getCurrentSpeedSettings (settings s))
         + frequency (getCurrentSpeedSettings (settings s)) * (currentPitchPercent s / 100) \<longrightarrow>
      getFrequency (waveform (running_pitch s)) =
        frequency (getCurrentSpeedSettings (settings s))
          + frequency (getCurrentSpeedSettings (settings s)) * (currentPitchPercent s / 100) \<and>
      currentFrequency (running_pitch s) =
        frequency (getCurrentSpeedSettings (settings s))
          + frequency (getCurrentSpeedSettings (settings s)) * (currentPitchPercent s / 100))"
  by (simp add: running_pitch_def Let_def sys_setFrequency_def setFrequency_def getFrequency_def)

lemma running_reducedAmp_frame:
  "targetFreq (motor (running_reducedAmp now s)) = targetFreq (motor s) \<and>
   isSpeedRamping (motor (running_reducedAmp now s)) = isSpeedRamping (motor s) \<and>
   getFrequency (waveform (running_reducedAmp now s)) = getFrequency (waveform s) \<and>
   currentFrequency (running_reducedAmp now s) = currentFrequency s"
  by (simp add: running_reducedAmp_def Let_def sys_setAmplitude_def setAmplitude_def
      getFrequency_def)

lemma running_speedRamp_idle:
  "\<not> isSpeedRamping (motor s) \<Longrightarrow> running_speedRamp now s = s"
  by (simp add: running_speedRamp_def)

lemma updateRuntime_frame:
  "motor (updateRuntime s) = motor s \<and> waveform (updateRuntime s) = waveform s \<and>
   currentFrequency (updateRuntime s) = currentFrequency s"
  by (simp add: updateRuntime_def Let_def)

lemma relayStagger_frame:
  "targetFreq (motor (relayStagger now s)) = targetFreq (motor s) \<and>
   waveform (relayStagger now s) = waveform s \<and>
   currentFrequency (relayStagger now s) = currentFrequency s"
  by (simp add: relayStagger_def Let_def digitalWrite_def)

lemma deferredSave_frame:
  "targetFreq (motor (deferredSave now s)) = targetFreq (motor s) \<and>
   waveform (deferredSave now s) = waveform s \<and>
   currentFrequency (deferredSave now s) = currentFrequency s"
  by (simp add: deferredSave_def Let_def settings_save_def)

lemma update_running_frequency:
  assumes "m_state (motor s) = STATE_RUNNING" and "\<not> isSpeedRamping (motor s)"
    and "f = frequency (getCurrentSpeedSettings (settings s))
              + frequency (getCurrentSpeedSettings (settings s)) * (currentPitchPercent s / 100)"
  shows "targetFreq (motor (update s)) = f \<and>
         (currentFreq (motor s) \<noteq> f \<longrightarrow>
            getFrequency (waveform (update s)) = f \<and> currentFrequency (update s) = f)"
proof -
  define p where "p = running_pitch s"
  define r where "r = running_reducedAmp (millis s) p"
  have pe: "targetFreq (motor p) = f" "\<not> isSpeedRamping (motor p)"
    "currentFreq (motor s) \<noteq> f \<longrightarrow> getFrequency (waveform p) = f \<and> currentFrequency p = f"
    using running_pitch_effect [of s] assms(2,3) by (simp_all add: p_def)
  have re: "targetFreq (motor r) = f" "\<not> isSpeedRamping (motor r)"
    "currentFreq (motor s) \<noteq> f \<longrightarrow> getFrequency (waveform r) = f \<and> currentFrequency r = f"
    using running_reducedAmp_frame [of "millis s" p] pe by (simp_all add: r_def)
  have u: "update_running (millis s) s = updateRuntime r"
    unfolding update_running_def p_def [symmetric] r_def [symmetric]
    by (simp add: running_speedRamp_idle [OF re(2)])
  define x where "x = (updateRuntime r)\<lparr>currentMotorState := m_state (motor (updateRuntime r))\<rparr>"
  have xe: "targetFreq (motor x) = f"
    "currentFreq (motor s) \<noteq> f \<longrightarrow> getFrequency (waveform x) = f \<and> currentFrequency x = f"
    using updateRuntime_frame [of r] re by (simp_all add: x_def)
  have "update s = deferredSave (millis s) (relayStagger (millis s) x)"
    by (simp add: update_def Let_def assms(1) u x_def)
  with xe relayStagger_frame [of "millis s" x]
    deferredSave_frame [of "millis s" "relayStagger (millis s) x"]
  show ?thesis by simp
qed

section \<open>Samples and filter histories\<close>

lemma sineTable_quarter: "sineTable 4096 = 511"
proof -
  have e: "(2 * pi * real 4096) / real lutSize = pi / 2"
    by (simp add: lutSize_def LUT_MAX_SIZE_def)
  show ?thesis
    unfolding sineTable_def e by (simp add: trunc_def)
qed

lemma quarter_in_table: "(4096::nat) < lutSize"
  by (simp add: lutSize_def LUT_MAX_SIZE_def)

lemma getSample_quarter_val:
  assumes "phaseAcc g 0 = 0" and "ws_phaseOffsets (activeState g) 1 = 1073741824"
    and "lut g 4096 = 511" and "ws_amplitude (activeState g) = 1"
  shows "getSample 1 g =
    (if ws_filterType (activeState g) = FILTER_IIR then
       (let out = ws_iirAlpha (activeState g) * 511
                    + (1 - ws_iirAlpha (activeState g)) * iirPrev g 1
        in (word_of_int (trunc out), g\<lparr>iirPrev := (iirPrev g)(1 := out)\<rparr>))
     else if ws_filterType (activeState g) = FILTER_FIR then
       (let b = firShift (firBuffer g 1) 511;
            coeffs = (if ws_firProfile (activeState g) = FIR_GENTLE then FIR_COEFFS_GENTLE
                      else if ws_firProfile (activeState g) = FIR_MEDIUM then FIR_COEFFS_MEDIUM
                      else FIR_COEFFS_AGGRESSIVE)
        in (word_of_int (trunc (firSum b coeffs)), g\<lparr>firBuffer := (firBuffer g)(1 := b)\<rparr>))
     else (511, g))"
  using assms
  by (simp add: getSample_def Let_def lutShift_def lutSize_def LUT_MAX_SIZE_def trunc_def)

lemma getSample_unfiltered:
  assumes "ws_filterType (activeState g) \<noteq> FILTER_IIR"
    and "ws_filterType (activeState g) \<noteq> FILTER_FIR"
  shows "snd (getSample c g) = g"
  using assms by (simp add: getSample_def Let_def)

lemma getSample_iirPrev:
  "(ws_filterType (activeState g) \<noteq> FILTER_IIR \<longrightarrow> iirPrev (snd (getSample c g)) = iirPrev g) \<and>
   (j \<noteq> c \<longrightarrow> iirPrev (snd (getSample c g)) j = iirPrev g j)"
  by (simp add: getSample_def Let_def)

lemma getSample_firBuffer:
  "ws_filterType (activeState g) \<noteq> FILTER_FIR \<Longrightarrow> firBuffer (snd (getSample c g)) = firBuffer g"
  by (simp add: getSample_def Let_def FILTER_IIR_def FILTER_FIR_def)

lemma synthTick_histories:
  "(ws_filterType (activeState g) \<noteq> FILTER_IIR \<longrightarrow> iirPrev (synthTick b i g) = iirPrev g) \<and>
   (ws_filterType (activeState g) \<noteq> FILTER_FIR \<longrightarrow> firBuffer (synthTick b i g) = firBuffer g)"
  by (simp add: synthTick_def Let_def split_beta getSample_frame getSample_iirPrev
      getSample_firBuffer)

lemma fillLoop_histories:
  "(ws_filterType (activeState g) \<noteq> FILTER_IIR \<longrightarrow> iirPrev (fillLoop b i g) = iirPrev g) \<and>
   (ws_filterType (activeState g) \<noteq> FILTER_FIR \<longrightarrow> firBuffer (fillLoop b i g) = firBuffer g)"
proof (induction b i g rule: fillLoop.induct)
  case (1 b i g)
  show ?case
  proof (cases "i < DMA_BUFFER_SIZE")
    case True
    with "1" synthTick_histories [of g b i] show ?thesis
      by (subst (1 2) fillLoop.simps) (simp add: synthTick_frame)
  next
    case False
    then show ?thesis by (subst (1 2) fillLoop.simps) simp
  qed
qed

lemma fillBuffer_histories:
  assumes "a = (if enabled g \<and> swapPending g then pendingState g else activeState g)"
  shows "(ws_filterType a \<noteq> FILTER_IIR \<longrightarrow> iirPrev (fillBuffer b g) = iirPrev g) \<and>
         (ws_filterType a \<noteq> FILTER_FIR \<longrightarrow> firBuffer (fillBuffer b g) = firBuffer g)"
proof (cases "enabled g")
  case True
  with assms fillLoop_histories [of "handleStateSwap g" b 0] show ?thesis
    by (simp add: fillBuffer_def handleStateSwap_frame)
next
  case False
  then show ?thesis by (simp add: fillBuffer_def zeroLoop_frame)
qed

lemma control_histories:
  "iirPrev (updateSettings f sp g) = iirPrev g \<and> firBuffer (updateSettings f sp g) = firBuffer g \<and>
   iirPrev (configure sp g) = iirPrev g \<and> firBuffer (configure sp g) = firBuffer g \<and>
   swapPending (updateSettings f sp g) \<and> swapPending (configure sp g) \<and>
   enabled (updateSettings f sp g) = enabled g \<and> enabled (configure sp g) = enabled g \<and>
   ws_filterType (pendingState (updateSettings f sp g)) = unat (filterType sp) \<and>
   ws_filterType (pendingState (configure sp g)) = unat (filterType sp)"
  by (simp add: updateSettings_def configure_def)

lemma iir_tick:
  assumes "iirConstant g"
  shows "iirConstant (synthTick b i g) \<and> 511 / 2 \<le> iirPrev (synthTick b i g) 1"
proof -
  define g0 where "g0 = snd (getSample 0 g)"
  define g1 where "g1 = snd (getSample 1 g0)"
  define g2 where "g2 = snd (getSample 2 g1)"
  define g3 where "g3 = snd (getSample 3 g2)"
  note a = assms [unfolded iirConstant_def]
  have f0: "activeState g0 = activeState g" "phaseAcc g0 = phaseAcc g" "lut g0 = lut g"
    "iirPrev g0 1 = iirPrev g 1"
    using getSample_frame [of 0 g] getSample_iirPrev [of g 0 1] by (simp_all add: g0_def)
  have q: "getSample 1 g0 =
      (word_of_int (trunc (511 / 2 + iirPrev g0 1 / 2)),
       g0\<lparr>iirPrev := (iirPrev g0)(1 := 511 / 2 + iirPrev g0 1 / 2)\<rparr>)"
    using getSample_quarter_val [of g0] a f0 by (simp add: Let_def)
  have f1: "activeState g1 = activeState g" "phaseAcc g1 = phaseAcc g" "lut g1 = lut g"
    "iirPrev g1 1 = 511 / 2 + iirPrev g 1 / 2"
    unfolding g1_def q using f0 by simp_all
  have f2: "activeState g2 = activeState g" "phaseAcc g2 = phaseAcc g" "lut g2 = lut g"
    "iirPrev g2 1 = 511 / 2 + iirPrev g 1 / 2"
    using getSample_frame [of 2 g1] getSample_iirPrev [of g1 2 1] f1 by (simp_all add: g2_def)
  have f3: "activeState g3 = activeState g" "phaseAcc g3 = phaseAcc g" "lut g3 = lut g"
    "iirPrev g3 1 = 511 / 2 + iirPrev g 1 / 2"
    using getSample_frame [of 3 g2] getSample_iirPrev [of g2 3 1] f2 by (simp_all add: g3_def)
  have t: "activeState (synthTick b i g) = activeState g"
    "phaseAcc (synthTick b i g) 0 = phaseAcc g 0 + ws_phaseInc (activeState g)"
    "lut (synthTick b i g) = lut g"
    by (simp_all add: synthTick_frame synthTick_phaseAcc)
  have h: "iirPrev (synthTick b i g) = iirPrev g3"
    by (simp add: synthTick_def Let_def split_beta g3_def g2_def g1_def g0_def)
  show ?thesis
    using a t f3(4) by (simp add: iirConstant_def h)
qed

lemma iir_loop:
  "iirConstant g \<Longrightarrow> i < DMA_BUFFER_SIZE \<Longrightarrow> 511 / 2 \<le> iirPrev (fillLoop b i g) 1"
proof (induction b i g rule: fillLoop.induct)
  case (1 b i g)
  note t = iir_tick [OF "1.prems"(1), of b i]
  show ?case
  proof (cases "i + 1 < DMA_BUFFER_SIZE")
    case True
    from "1.IH" [OF "1.prems"(2) conjunct1 [OF t] True] "1.prems"(2) show ?thesis
      by (subst fillLoop.simps) simp
  next
    case False
    then have "fillLoop b (i + 1) (synthTick b i g) = synthTick b i g"
      by (subst fillLoop.simps) simp
    with t "1.prems"(2) show ?thesis
      by (subst fillLoop.simps) simp
  qed
qed

lemma iirGenerator_facts:
  "enabled iirGenerator" "ws_filterType (activeState iirGenerator) = FILTER_IIR"
  "511 / 2 \<le> iirPrev iirGenerator 1"
proof -
  define w where "w = waveform_begin WaveformGenerator_init"
  define p where "p = setEnabled True (setAmplitude 1 (configure iirSpeed w))"
  have ne: "\<not> enabled WaveformGenerator_init"
    by (simp add: WaveformGenerator_init_def)
  note wf = waveform_begin_frame [OF ne, folded w_def]
  have l: "lut w 4096 = 511"
    using wf quarter_in_table sineTable_quarter by simp
  have sp: "filterType iirSpeed = 1" "iirAlpha iirSpeed = 1/2" "phaseOffset iirSpeed 1 = 90"
    "phaseOffset iirSpeed (Suc 0) = 90"
    by (simp_all add: iirSpeed_def defaultSettings_def setDefaults_def defaultSpeed_def)
  have pf: "enabled p" "swapPending p" "phaseAcc p 0 = 0" "lut p 4096 = 511" "iirPrev p 1 = 0"
    "ws_filterType (pendingState p) = FILTER_IIR" "ws_iirAlpha (pendingState p) = 1/2"
    "ws_amplitude (pendingState p) = 1" "ws_phaseInc (pendingState p) = 0"
    "ws_phaseOffsets (pendingState p) 1 = 1073741824"
    using wf l
    by (simp_all add: p_def setEnabled_def setAmplitude_def configure_def sp FILTER_IIR_def
        phaseOffset_u32_90 WaveformGenerator_init_def stateA_init_def)
  have c: "iirConstant (handleStateSwap p)"
    using pf by (simp add: iirConstant_def handleStateSwap_def)
  have g: "iirGenerator = fillLoop 1 0 (handleStateSwap p)"
    using pf(1) by (simp add: iirGenerator_def fillBuffer_def p_def w_def)
  have z: "(0::nat) < DMA_BUFFER_SIZE" by (simp add: DMA_BUFFER_SIZE_def)
  show "enabled iirGenerator"
    using pf(1) by (simp add: g fillLoop_frame handleStateSwap_frame)
  show "ws_filterType (activeState iirGenerator) = FILTER_IIR"
    using pf by (simp add: g fillLoop_frame handleStateSwap_frame)
  show "511 / 2 \<le> iirPrev iirGenerator 1"
    unfolding g by (rule iir_loop [OF c z])
qed

lemma fillBuffer_first_word:
  assumes "enabled g"
  shows "dmaBufferSlice0 (fillBuffer b g) b 0 = dmaBufferSlice0 (synthTick b 0 (handleStateSwap g)) b 0"
proof -
  have z: "(0::nat) < DMA_BUFFER_SIZE" by (simp add: DMA_BUFFER_SIZE_def)
  have "fillLoop b 0 (handleStateSwap g) = fillLoop b (0 + 1) (synthTick b 0 (handleStateSwap g))"
    using z by (subst fillLoop.simps) simp
  with fillLoop_words [of 1 0 b "synthTick b 0 (handleStateSwap g)"] assms
  show ?thesis by (simp add: fillBuffer_def)
qed

lemma synthTick_channelB:
  assumes "ws_filterType (activeState g) = FILTER_NONE"
  shows "highHalf (dmaBufferSlice0 (synthTick b i g) b i)
           = clamp1023 (word_of_int (512 + sint (fst (getSample 1 g))))"
proof -
  have n: "ws_filterType (activeState g) \<noteq> FILTER_IIR" "ws_filterType (activeState g) \<noteq> FILTER_FIR"
    using assms by (simp_all add: FILTER_NONE_def FILTER_IIR_def FILTER_FIR_def)
  have g0: "snd (getSample 0 g) = g" by (rule getSample_unfiltered [OF n])
  show ?thesis
    by (simp add: synthTick_def Let_def split_beta g0 upd2_def highHalf_packWord)
qed

section \<open>Float arithmetic and the normalising loops\<close>

lemma normaliseHigh_done: "\<not> fl_ge x (Fin 360) \<Longrightarrow> normaliseHigh x = Some x"
  by (subst normaliseHigh.simps) simp

lemma normaliseLow_done: "\<not> fl_lt x (Fin 0) \<Longrightarrow> normaliseLow x = Some x"
  by (subst normaliseLow.simps) simp

lemma normalisePhase_done:
  "\<not> fl_ge x (Fin 360) \<Longrightarrow> \<not> fl_lt x (Fin 0) \<Longrightarrow> normalisePhase x = Some x"
  by (simp add: normalisePhase_def normaliseHigh_done normaliseLow_done)

lemma normalisePhase_NaN: "normalisePhase NaN = Some NaN"
  by (simp add: normalisePhase_done)

lemma normalisePhase_small:
  "0 \<le> x \<Longrightarrow> x < 360 \<Longrightarrow> normalisePhase (Fin x) = Some (Fin x)"
  by (simp add: normalisePhase_done)

text \<open>Rounding at a value whose binary exponent \<open>k\<close> is known.\<close>

lemma roundBinary_at:
  assumes "2 powr of_int k \<le> \<bar>x\<bar>" "\<bar>x\<bar> < 2 powr of_int (k + 1)" "emin \<le> k - int p + 1"
  shows "roundBinary p emin x
           = of_int (roundEven (x / 2 powr of_int (k - int p + 1))) * 2 powr of_int (k - int p + 1)"
proof -
  have "(0::real) < 2 powr of_int k" by simp
  with assms(1) have pos: "0 < \<bar>x\<bar>" by linarith
  then have "\<lfloor>log 2 \<bar>x\<bar>\<rfloor> = k"
    using assms(1,2) by (simp add: floor_log_eq_powr_iff)
  with pos assms(3) show ?thesis
    by (simp add: roundBinary_def Let_def max_def)
qed

lemma roundEven_int: "roundEven (of_int n) = n"
  by (simp add: roundEven_def)

lemma roundEven_up: "of_int n - 1/2 < m \<Longrightarrow> m \<le> of_int n \<Longrightarrow> roundEven m = n"
  by (auto simp: roundEven_def Let_def) linarith+

text \<open>
  An offset of \<open>2 ^ 34 = 17179869184\<close> is a \<open>float\<close>.  \<open>2 ^ 34 - 360\<close> is a \<open>double\<close>;
  the \<open>float\<close> values next to it are 1024 apart, and the nearest is \<open>2 ^ 34\<close> again.
  So \<open>x -= 360.0\<close> leaves the offset as it is and the first loop does not end; the
  same holds of an infinite offset.
\<close>

lemma to_double_big: "to_double 17179868824 = 17179868824"
proof -
  have "roundBinary 53 (- 1074) 17179868824
          = of_int (roundEven (17179868824 / 2 powr of_int (33 - int 53 + 1))) * 2 powr of_int (33 - int 53 + 1)"
    by (rule roundBinary_at) simp_all
  also have "(17179868824 :: real) / 2 powr of_int (33 - int 53 + 1) = of_int (17179868824 * 2 ^ 19)"
    by (simp add: powr_minus field_simps)
  also have "roundEven (of_int (17179868824 * 2 ^ 19)) = 17179868824 * 2 ^ 19"
    by (rule roundEven_int)
  finally show ?thesis
    by (simp add: to_double_def powr_minus)
qed

lemma to_float_big: "to_float 17179868824 = Fin 17179869184"
proof -
  have "roundBinary 24 (- 149) 17179868824
          = of_int (roundEven (17179868824 / 2 powr of_int (33 - int 24 + 1))) * 2 powr of_int (33 - int 24 + 1)"
    by (rule roundBinary_at) simp_all
  also have "roundEven (17179868824 / 2 powr of_int (33 - int 24 + 1)) = 16777216"
    by (rule roundEven_up) simp_all
  finally have "roundBinary 24 (- 149) 17179868824 = 17179869184"
    by simp
  then show ?thesis
    by (simp add: to_float_def)
qed

lemma fl_add_big: "fl_add (Fin 17179869184) (- 360) = Fin 17179869184"
  by (simp add: to_double_big to_float_big)

lemma normaliseHigh_big: "normaliseHigh (Fin 17179869184) = None"
proof -
  have "x \<noteq> Fin 17179869184" if h: "normaliseHigh x = Some y" for x y
  proof (rule normaliseHigh.raw_induct [where P = "\<lambda>x y. x \<noteq> Fin 17179869184", OF _ h])
    fix f x y
    assume IH: "\<And>x y. f x = Some y \<Longrightarrow> x \<noteq> Fin 17179869184"
      and step: "(if fl_ge x (Fin 360) then f (fl_add x (- 360)) else Some x) = Some y"
    show "x \<noteq> Fin 17179869184"
    proof
      assume "x = Fin 17179869184"
      with step have "f (Fin 17179869184) = Some y"
        by (simp add: to_double_big to_float_big)
      from IH [OF this] show False by simp
    qed
  qed
  then show ?thesis by (cases "normaliseHigh (Fin 17179869184)") auto
qed

lemma normaliseHigh_PInf: "normaliseHigh PInf = None"
proof -
  have "x \<noteq> PInf" if h: "normaliseHigh x = Some y" for x y
  proof (rule normaliseHigh.raw_induct [where P = "\<lambda>x y. x \<noteq> PInf", OF _ h])
    fix f x y
    assume IH: "\<And>x y. f x = Some y \<Longrightarrow> x \<noteq> PInf"
      and step: "(if fl_ge x (Fin 360) then f (fl_add x (- 360)) else Some x) = Some y"
    show "x \<noteq> PInf"
    proof
      assume "x = PInf"
      with step have "f (PInf) = Some y"
        by simp
      from IH [OF this] show False by simp
    qed
  qed
  then show ?thesis by (cases "normaliseHigh PInf") auto
qed

text \<open>
  An offset of \<open>- 2 ^ - 33\<close> is a \<open>float\<close> below 0.  \<open>360 - 2 ^ - 33\<close>
  (\<open>= 3092376453119 / 8589934592\<close>) is a \<open>double\<close>; the \<open>float\<close> values next to it are
  \<open>2 ^ - 15\<close> apart and the nearest is 360.  So the second loop ends with the offset
  at exactly 360, which is not below 360.
\<close>

lemma to_double_tiny: "to_double (3092376453119 / 8589934592) = 3092376453119 / 8589934592"
proof -
  have "roundBinary 53 (- 1074) (3092376453119 / 8589934592)
          = of_int (roundEven ((3092376453119 / 8589934592) / 2 powr of_int (8 - int 53 + 1))) * 2 powr of_int (8 - int 53 + 1)"
    by (rule roundBinary_at) simp_all
  also have "(3092376453119 / 8589934592 :: real) / 2 powr of_int (8 - int 53 + 1) = of_int (3092376453119 * 2 ^ 11)"
    by (simp add: powr_minus field_simps)
  also have "roundEven (of_int (3092376453119 * 2 ^ 11)) = 3092376453119 * 2 ^ 11"
    by (rule roundEven_int)
  finally show ?thesis
    by (simp add: to_double_def powr_minus field_simps)
qed

lemma to_float_tiny: "to_float (3092376453119 / 8589934592) = Fin 360"
proof -
  have "roundBinary 24 (- 149) (3092376453119 / 8589934592)
          = of_int (roundEven ((3092376453119 / 8589934592) / 2 powr of_int (8 - int 24 + 1))) * 2 powr of_int (8 - int 24 + 1)"
    by (rule roundBinary_at) simp_all
  also have "roundEven ((3092376453119 / 8589934592) / 2 powr of_int (8 - int 24 + 1)) = 11796480"
    by (rule roundEven_up) (simp_all add: powr_minus field_simps)
  finally have "roundBinary 24 (- 149) (3092376453119 / 8589934592) = 360"
    by (simp add: powr_minus)
  then show ?thesis
    by (simp add: to_float_def)
qed

lemma fl_add_tiny: "fl_add (Fin (- (1 / 2 ^ 33))) 360 = Fin 360"
  by (simp add: to_double_tiny to_float_tiny)

lemma normalisePhase_tiny: "normalisePhase (Fin (- (1 / 2 ^ 33))) = Some (Fin 360)"
proof -
  have h: "normaliseHigh (Fin (- (1 / 2 ^ 33))) = Some (Fin (- (1 / 2 ^ 33)))"
    by (subst normaliseHigh.simps) simp
  have l: "normaliseLow (Fin (- (1 / 2 ^ 33))) = Some (Fin 360)"
    apply (subst normaliseLow.simps)
    apply (simp only: fl_add_tiny)
    apply (subst normaliseLow.simps)
    apply simp
    done
  show ?thesis by (simp only: normalisePhase_def h Option.bind.simps l)
qed

text \<open>
  C9.  In an enabled refill of buffer \<open>b\<close>, each of the 256 words written to the two
  slices' buffers packs two compare values that lie in [0, 1023]: those of channels A and
  B in slice 0, of C and D in slice 1.  The bound holds for every amplitude, alpha, filter
  kind, phase offset and filter history, since \<open>fillBuffer\<close> clamps each value after
  adding the offset 512; so it holds under the preconditions of the claim.
\<close>

theorem C9_compare_values_in_range:
  "enabled g \<Longrightarrow> i < DMA_BUFFER_SIZE \<Longrightarrow>
     unat (lowHalf (dmaBufferSlice0 (fillBuffer b g) b i)) \<le> 1023 \<and>
     unat (highHalf (dmaBufferSlice0 (fillBuffer b g) b i)) \<le> 1023 \<and>
     unat (lowHalf (dmaBufferSlice1 (fillBuffer b g) b i)) \<le> 1023 \<and>
     unat (highHalf (dmaBufferSlice1 (fillBuffer b g) b i)) \<le> 1023"
  using fillLoop_words [of 0 i b "handleStateSwap g"]
  by (simp add: fillBuffer_def packedOK_def)

theorem C9_compare_values_in_range_witness:
  "enabled (setEnabled True WaveformGenerator_init) \<and> (255::nat) < DMA_BUFFER_SIZE \<and>
   unat (highHalf (dmaBufferSlice1
      (fillBuffer 1 (setEnabled True WaveformGenerator_init)) 1 255)) \<le> 1023"
proof -
  have e: "enabled (setEnabled True WaveformGenerator_init)"
    by (simp add: setEnabled_def)
  have b: "(255::nat) < DMA_BUFFER_SIZE"
    by (simp add: DMA_BUFFER_SIZE_def)
  from C9_compare_values_in_range [OF e b, of 1] e b show ?thesis
    by blast
qed




section \<open>Presets and migration\<close>

lemma readExact_short: "length bytes < n \<Longrightarrow> readExact n bytes = None"
  by (simp add: readExact_def)

lemma presetPath_2: "presetPath 2 = ''/preset_2.bin''"
  by (simp add: presetPath_def show_nat.simps [of 2])

text \<open>
  On its failing paths \<open>loadPreset\<close> is atomic: with a slot out of range, an unmounted
  filesystem, no preset file, or a file shorter than \<open>sizeof(GlobalSettings)\<close>, the call
  returns false and the \<open>Settings\<close> object is what it was.  Otherwise the preset is
  assigned, and the call returns true exactly when \<open>validate\<close> returns.
\<close>

lemma loadPreset_failure:
  "MAX_PRESET_SLOTS \<le> unat slot \<or> \<not> fs_mounted st \<or> fs_files st (presetPath slot) = None \<or>
     (\<exists>bytes. fs_files st (presetPath slot) = Some bytes \<and>
              length bytes < sizeof_GlobalSettings L)
   \<Longrightarrow> loadPreset L slot st = Returns False st"
  by (auto simp: loadPreset_def loadFromSlot_def openRead_def readExact_def)

lemma loadPreset_readable:
  assumes "unat slot < MAX_PRESET_SLOTS" "fs_mounted st"
    "fs_files st (presetPath slot) = Some bytes" "sizeof_GlobalSettings L \<le> length bytes"
  shows "loadPreset L slot st =
           (case validate L (st\<lparr>data := as_GlobalSettings L (take (sizeof_GlobalSettings L) bytes)\<rparr>) of
              Some st' \<Rightarrow> Returns True st'
            | None \<Rightarrow> NoReturn (st\<lparr>data := as_GlobalSettings L (take (sizeof_GlobalSettings L) bytes)\<rparr>))"
  using assms by (simp add: loadPreset_def loadFromSlot_def openRead_def readExact_def)

lemma loadPreset_false_unchanged: "loadPreset L slot st = Returns False st' \<Longrightarrow> st' = st"
  by (auto simp: loadPreset_def split: option.splits if_splits)

lemma validateSpeed_bigOffset: "validateSpeed (speeds bigOffsetPreset 0) = None"
  by (simp add: validateSpeed_def bigOffsetPreset_def setDefaults_def defaultSpeed_def
      GlobalSettings_zero_def SpeedSettings_zero_def Let_def fl_gt_def normalisePhase_def
      normaliseHigh_big)

lemma validate_bigOffset: "validate bigOffsetLayout (presetState\<lparr>data := bigOffsetPreset\<rparr>) = None"
proof -
  have v: "schemaVersion bigOffsetPreset = SETTINGS_SCHEMA_VERSION"
    by (simp add: bigOffsetPreset_def setDefaults_def Let_def)
  have c: "\<not> currentSpeed bigOffsetPreset > SPEED_78"
    by (simp add: bigOffsetPreset_def setDefaults_def Let_def DEFAULT_SPEED_INDEX_def SPEED_78_def)
  have m: "\<not> maxAmplitude bigOffsetPreset > 100"
    by (simp add: bigOffsetPreset_def setDefaults_def Let_def)
  show ?thesis
    by (simp add: validate_def Let_def v c m validateSpeed_bigOffset)
qed

text \<open>
  C10 at a failing input.  The object holds the defaults, slot 2 is in range, and the
  preset file of slot 2 exists and has \<open>sizeof(GlobalSettings)\<close> bytes, which read as a
  configuration whose first phase offset of the 33 rpm profile is \<open>2 ^ 34\<close>.
  \<open>loadFromSlot\<close> succeeds, \<open>_data = temp\<close> overwrites the settings with the preset, and
  \<open>validate\<close> does not return: the settings have been changed by a call that never
  returns true.
\<close>

theorem C10_loadPreset_no_return:
  "unat (2 :: u8) < MAX_PRESET_SLOTS \<and>
   fs_mounted presetState \<and>
   fs_files presetState (presetPath 2) = Some (replicate 12 0) \<and>
   sizeof_GlobalSettings bigOffsetLayout \<le> length (replicate 12 (0 :: u8)) \<and>
   loadFromSlot bigOffsetLayout 2 presetState = Some bigOffsetPreset \<and>
   loadPreset bigOffsetLayout 2 presetState = NoReturn (presetState\<lparr>data := bigOffsetPreset\<rparr>) \<and>
   data (presetState\<lparr>data := bigOffsetPreset\<rparr>) \<noteq> data presetState"
proof -
  have s: "unat (2 :: u8) < MAX_PRESET_SLOTS"
    by (simp add: MAX_PRESET_SLOTS_def)
  have m: "fs_mounted presetState"
    by (simp add: presetState_def)
  have f: "fs_files presetState (presetPath 2) = Some (replicate 12 0)"
    by (simp add: presetState_def presetPath_2)
  have l: "sizeof_GlobalSettings bigOffsetLayout \<le> length (replicate 12 (0 :: u8))"
    by (simp add: bigOffsetLayout_def exampleLayout_def)
  have t: "loadFromSlot bigOffsetLayout 2 presetState = Some bigOffsetPreset"
    using m f l by (simp add: loadFromSlot_def openRead_def readExact_def bigOffsetLayout_def)
  have r: "loadPreset bigOffsetLayout 2 presetState = NoReturn (presetState\<lparr>data := bigOffsetPreset\<rparr>)"
    using s by (simp add: loadPreset_def t validate_bigOffset)
  have "phaseOffset (speeds bigOffsetPreset 0) 0 \<noteq> phaseOffset (speeds (data presetState) 0) 0"
    by (simp add: bigOffsetPreset_def presetState_def setDefaults_def defaultSpeed_def Let_def)
  then have d: "data (presetState\<lparr>data := bigOffsetPreset\<rparr>) \<noteq> data presetState"
    by auto
  from s m f l t r d show ?thesis
    by blast
qed

lemma save_data: "data (save L st) = data st"
  by (simp add: save_def)

lemma save_file:
  "fs_mounted st \<Longrightarrow> fs_files (save L st) settings_filename = Some (bytes_of L (data st))"
  by (simp add: save_def)

text \<open>
  C8.  For a version-2 settings file (at least \<open>sizeof(GlobalSettingsV2)\<close> bytes, read as
  the struct \<open>v2\<close>), \<open>migrate(2, f)\<close> returns true and leaves a version-4 struct in which
  each of the 34 fields that the version-2 layout shares with it has the value of \<open>v2\<close>
  (the three speed profiles and the five preset names entry by entry), the schema
  version is 4, \<open>freqDependentAmplitude\<close> is 0 and \<open>bootSpeed\<close> is 3; the struct is then
  written to the settings file (the write succeeds on a mounted filesystem).
\<close>

theorem C8_migrate_v2:
  assumes "sizeof_GlobalSettingsV2 L \<le> length bytes"
    and "v2 = as_GlobalSettingsV2 L (take (sizeof_GlobalSettingsV2 L) bytes)"
    and "d = data (snd (migrate L 2 bytes st))"
  shows "fst (migrate L 2 bytes st) \<and>
     schemaVersion d = 4 \<and>
     phaseMode d = v2_phaseMode v2 \<and>
     maxAmplitude d = v2_maxAmplitude v2 \<and>
     softStartCurve d = v2_softStartCurve v2 \<and>
     smoothSwitching d = v2_smoothSwitching v2 \<and>
     switchRampDuration d = v2_switchRampDuration v2 \<and>
     brakeMode d = v2_brakeMode v2 \<and>
     brakeDuration d = v2_brakeDuration v2 \<and>
     brakePulseGap d = v2_brakePulseGap v2 \<and>
     brakeStartFreq d = v2_brakeStartFreq v2 \<and>
     brakeStopFreq d = v2_brakeStopFreq v2 \<and>
     relayActiveHigh d = v2_relayActiveHigh v2 \<and>
     muteRelayLinkStandby d = v2_muteRelayLinkStandby v2 \<and>
     muteRelayLinkStartStop d = v2_muteRelayLinkStartStop v2 \<and>
     powerOnRelayDelay d = v2_powerOnRelayDelay v2 \<and>
     displayBrightness d = v2_displayBrightness v2 \<and>
     displaySleepDelay d = v2_displaySleepDelay v2 \<and>
     screensaverEnabled d = v2_screensaverEnabled v2 \<and>
     autoDimDelay d = v2_autoDimDelay v2 \<and>
     showRuntime d = v2_showRuntime v2 \<and>
     errorDisplayEnabled d = v2_errorDisplayEnabled v2 \<and>
     errorDisplayDuration d = v2_errorDisplayDuration v2 \<and>
     autoStandbyDelay d = v2_autoStandbyDelay v2 \<and>
     autoStart d = v2_autoStart v2 \<and>
     autoBoot d = v2_autoBoot v2 \<and>
     pitchResetOnStop d = v2_pitchResetOnStop v2 \<and>
     (\<forall>i < 3. speeds d i = v2_speeds v2 i) \<and>
     (\<forall>i < 5. presetNames d i = v2_presetNames v2 i) \<and>
     totalRuntime d = v2_totalRuntime v2 \<and>
     reverseEncoder d = v2_reverseEncoder v2 \<and>
     pitchStepSize d = v2_pitchStepSize v2 \<and>
     rampType d = v2_rampType v2 \<and>
     screensaverMode d = v2_screensaverMode v2 \<and>
     enable78rpm d = v2_enable78rpm v2 \<and>
     currentSpeed d = v2_currentSpeed v2 \<and>
     freqDependentAmplitude d = 0 \<and>
     bootSpeed d = 3 \<and>
     (fs_mounted st \<longrightarrow>
        fs_files (snd (migrate L 2 bytes st)) settings_filename = Some (bytes_of L d))"
  using assms
  by (simp add: migrate_def readExact_def Let_def save_data save_file setDefaults_def
      SETTINGS_SCHEMA_VERSION_def)

theorem C8_migrate_v2_witness:
  "sizeof_GlobalSettingsV2 exampleLayout \<le> length (replicate 8 (2::u8)) \<and>
   fst (migrate exampleLayout 2 (replicate 8 2) (Settings_init\<lparr>fs_mounted := True\<rparr>)) \<and>
   maxAmplitude (data (snd (migrate exampleLayout 2 (replicate 8 2)
       (Settings_init\<lparr>fs_mounted := True\<rparr>)))) = 90 \<and>
   presetNames (data (snd (migrate exampleLayout 2 (replicate 8 2)
       (Settings_init\<lparr>fs_mounted := True\<rparr>)))) 4 = ''Mine'' \<and>
   freqDependentAmplitude (data (snd (migrate exampleLayout 2 (replicate 8 2)
       (Settings_init\<lparr>fs_mounted := True\<rparr>)))) = 0 \<and>
   bootSpeed (data (snd (migrate exampleLayout 2 (replicate 8 2)
       (Settings_init\<lparr>fs_mounted := True\<rparr>)))) = 3 \<and>
   fs_files (snd (migrate exampleLayout 2 (replicate 8 2) (Settings_init\<lparr>fs_mounted := True\<rparr>)))
       settings_filename = Some (replicate 12 4)"
proof -
  have h: "sizeof_GlobalSettingsV2 exampleLayout \<le> length (replicate 8 (2::u8))"
    by (simp add: exampleLayout_def)
  have v: "as_GlobalSettingsV2 exampleLayout
             (take (sizeof_GlobalSettingsV2 exampleLayout) (replicate 8 2)) = exampleV2"
    by (simp add: exampleLayout_def)
  have m: "fs_mounted (Settings_init\<lparr>fs_mounted := True\<rparr>)" by simp
  have b: "\<And>d. schemaVersion d = 4 \<Longrightarrow> bytes_of exampleLayout d = replicate 12 4"
    by (simp add: exampleLayout_def)
  have n: "(4::nat) < 5" by simp
  from C8_migrate_v2 [OF h refl refl, of "Settings_init\<lparr>fs_mounted := True\<rparr>"] h m n
  show ?thesis
    unfolding v by (simp add: b exampleV2_def)
qed

section \<open>Validation of a configuration\<close>

text \<open>
  C7 at a failing input.  \<open>validate\<close> is run on the default configuration in which the
  second phase offset of the 33 rpm profile and the minimum frequency of the 45 rpm
  profile are NaN.  It returns, and both fields are still NaN: every comparison with NaN
  is false, so neither the swap, nor the clamps, nor the two normalising loops change
  them.  The offset is then not in [0, 360), and \<open>min <= nominal\<close> does not hold for the
  45 rpm profile (nominal 67.5).
\<close>

theorem C7_validate_keeps_nan:
  "map_option (\<lambda>st. (phaseOffset (speeds (data st) 0) 1, minFrequency (speeds (data st) 1),
                      frequency (speeds (data st) 1)))
     (validate exampleLayout nanSettings) = Some (NaN, NaN, Fin 67.5) \<and>
   \<not> (fl_ge NaN (Fin 0) \<and> fl_lt NaN (Fin 360)) \<and>
   \<not> fl_ge (Fin 67.5) NaN"
  by (simp add: validate_def validateSpeed_def nanSettings_def Settings_init_def
      setDefaults_def defaultSpeed_def GlobalSettings_zero_def SpeedSettings_zero_def
      SETTINGS_SCHEMA_VERSION_def SPEED_78_def DEFAULT_SPEED_INDEX_def Let_def fl_gt_def
      normalisePhase_NaN normalisePhase_small)

text \<open>
  C1 (as the code has it).  \<open>ErrorHandler::report\<close> reaches the relays only through
  \<open>UserInterface::showError\<close>, which it calls when the setting \<open>errorDisplayEnabled\<close> is
  on.  With the error display enabled, every report (of any kind, critical or not, in any
  motor state) drives the four mute relay pins to the inactive level (low when the relays
  are active-high, high otherwise) within the call, and leaves the state of the motor
  state machine and the synthesis parameters as they were.  With the error display
  disabled, a report leaves every pin and the motor controller untouched.  A critical
  report sets the critical-error flag in both cases.
\<close>

theorem C1_report_mutes_when_displayed:
  "(errorDisplayEnabled (settings s) \<longrightarrow>
      pins (report c m critical s) PIN_MUTE_PHASE_A = (\<not> relayActiveHigh (settings s)) \<and>
      pins (report c m critical s) PIN_MUTE_PHASE_B = (\<not> relayActiveHigh (settings s)) \<and>
      pins (report c m critical s) PIN_MUTE_PHASE_C = (\<not> relayActiveHigh (settings s)) \<and>
      pins (report c m critical s) PIN_MUTE_PHASE_D = (\<not> relayActiveHigh (settings s)) \<and>
      m_state (motor (report c m critical s)) = m_state (motor s) \<and>
      waveform (report c m critical s) = waveform s) \<and>
   (\<not> errorDisplayEnabled (settings s) \<longrightarrow>
      pins (report c m critical s) = pins s \<and> motor (report c m critical s) = motor s) \<and>
   (critical \<longrightarrow> eh_criticalError (report c m critical s))"
  using report_displayed [of s c m critical] report_not_displayed [of s c m critical]
  by (cases "errorDisplayEnabled (settings s)") simp_all

theorem C1_report_mutes_when_displayed_witness:
  "errorDisplayEnabled (settings runningSystem) \<and>
   pins runningSystem PIN_MUTE_PHASE_A \<and> pins runningSystem PIN_MUTE_PHASE_D \<and>
   \<not> pins (report ERR_MOTOR_STALL ''Motor stall'' True runningSystem) PIN_MUTE_PHASE_A \<and>
   \<not> pins (report ERR_MOTOR_STALL ''Motor stall'' True runningSystem) PIN_MUTE_PHASE_B \<and>
   \<not> pins (report ERR_MOTOR_STALL ''Motor stall'' True runningSystem) PIN_MUTE_PHASE_C \<and>
   \<not> pins (report ERR_MOTOR_STALL ''Motor stall'' True runningSystem) PIN_MUTE_PHASE_D \<and>
   m_state (motor (report ERR_MOTOR_STALL ''Motor stall'' True runningSystem)) = STATE_RUNNING \<and>
   eh_criticalError (report ERR_MOTOR_STALL ''Motor stall'' True runningSystem)"
  using C1_report_mutes_when_displayed [of runningSystem ERR_MOTOR_STALL "''Motor stall''" True]
  by (simp add: runningSystem_facts defaultSettings_facts PIN_MUTE_PHASE_A_def
      PIN_MUTE_PHASE_D_def)

text \<open>
  C1 as the specification states it fails.  In the running system of the session above,
  with the error display switched off in the menu, a critical \<open>MotorStall\<close> report leaves
  all four mute relay pins high, which is the active (unmuted) level of the default
  active-high relays.
\<close>

theorem C1_display_disabled_counterexample:
  "m_state (motor (runningSystem\<lparr>settings := (settings runningSystem)\<lparr>errorDisplayEnabled := False\<rparr>\<rparr>))
     = STATE_RUNNING \<and>
   relayActiveHigh (settings (runningSystem\<lparr>settings := (settings runningSystem)\<lparr>errorDisplayEnabled := False\<rparr>\<rparr>)) \<and>
   pins (report ERR_MOTOR_STALL ''Motor stall'' True
      (runningSystem\<lparr>settings := (settings runningSystem)\<lparr>errorDisplayEnabled := False\<rparr>\<rparr>))
      PIN_MUTE_PHASE_A \<and>
   pins (report ERR_MOTOR_STALL ''Motor stall'' True
      (runningSystem\<lparr>settings := (settings runningSystem)\<lparr>errorDisplayEnabled := False\<rparr>\<rparr>))
      PIN_MUTE_PHASE_B \<and>
   pins (report ERR_MOTOR_STALL ''Motor stall'' True
      (runningSystem\<lparr>settings := (settings runningSystem)\<lparr>errorDisplayEnabled := False\<rparr>\<rparr>))
      PIN_MUTE_PHASE_C \<and>
   pins (report ERR_MOTOR_STALL ''Motor stall'' True
      (runningSystem\<lparr>settings := (settings runningSystem)\<lparr>errorDisplayEnabled := False\<rparr>\<rparr>))
      PIN_MUTE_PHASE_D"
proof -
  let ?s = "runningSystem\<lparr>settings := (settings runningSystem)\<lparr>errorDisplayEnabled := False\<rparr>\<rparr>"
  have d: "\<not> errorDisplayEnabled (settings ?s)" by simp
  from report_not_displayed [OF d, of ERR_MOTOR_STALL "''Motor stall''" True]
  show ?thesis
    by (simp add: runningSystem_facts defaultSettings_facts PIN_MUTE_PHASE_A_def
        PIN_MUTE_PHASE_B_def PIN_MUTE_PHASE_C_def PIN_MUTE_PHASE_D_def)
qed

text \<open>
  C4 (as the code has it).  In a tick of \<open>update\<close> in the running state with no speed
  switching ramp in progress, the target frequency becomes
  \<open>nominal + nominal * (pitch / 100)\<close> of the active speed profile, and when it differs
  from the current frequency it is handed to the DDS by \<open>setFrequency\<close> and published in
  \<open>currentFrequency\<close>.  No step clamps it to the profile's \<open>[minFrequency, maxFrequency]\<close>:
  it lies in that interval when the nominal frequency is not negative, the pitch is within
  the range, and the profile satisfies \<open>min <= nominal * (1 - range/100)\<close> and
  \<open>nominal * (1 + range/100) <= max\<close>.
\<close>

theorem C4_running_frequency:
  assumes "m_state (motor s) = STATE_RUNNING" and "\<not> isSpeedRamping (motor s)"
    and "sp = getCurrentSpeedSettings (settings s)"
    and "f = frequency sp + frequency sp * (currentPitchPercent s / 100)"
  shows "targetFreq (motor (update s)) = f \<and>
         (currentFreq (motor s) \<noteq> f \<longrightarrow>
            getFrequency (waveform (update s)) = f \<and> currentFrequency (update s) = f) \<and>
         (0 \<le> frequency sp \<and>
          \<bar>currentPitchPercent s\<bar> \<le> real_of_int (pitchRange (motor s)) \<and>
          minFrequency sp \<le> frequency sp * (1 - real_of_int (pitchRange (motor s)) / 100) \<and>
          frequency sp * (1 + real_of_int (pitchRange (motor s)) / 100) \<le> maxFrequency sp
            \<longrightarrow> minFrequency sp \<le> f \<and> f \<le> maxFrequency sp)"
proof -
  have a: "targetFreq (motor (update s)) = f \<and>
         (currentFreq (motor s) \<noteq> f \<longrightarrow>
            getFrequency (waveform (update s)) = f \<and> currentFrequency (update s) = f)"
    using update_running_frequency [OF assms(1,2)] assms(3,4) by simp
  have b: "minFrequency sp \<le> f \<and> f \<le> maxFrequency sp"
    if h: "0 \<le> frequency sp" "\<bar>currentPitchPercent s\<bar> \<le> real_of_int (pitchRange (motor s))"
      "minFrequency sp \<le> frequency sp * (1 - real_of_int (pitchRange (motor s)) / 100)"
      "frequency sp * (1 + real_of_int (pitchRange (motor s)) / 100) \<le> maxFrequency sp"
  proof -
    have "frequency sp * (currentPitchPercent s / 100)
            \<le> frequency sp * (real_of_int (pitchRange (motor s)) / 100)"
      using h(1,2) by (intro mult_left_mono) auto
    moreover have "frequency sp * (- (real_of_int (pitchRange (motor s)) / 100))
            \<le> frequency sp * (currentPitchPercent s / 100)"
      using h(1,2) by (intro mult_left_mono) auto
    ultimately show ?thesis
      using h(3,4) assms(4) by (simp add: algebra_simps)
  qed
  from a b show ?thesis by blast
qed

theorem C4_running_frequency_witness:
  "m_state (motor (at_time 6200 (setPitch 10 runningSystem))) = STATE_RUNNING \<and>
   \<not> isSpeedRamping (motor (at_time 6200 (setPitch 10 runningSystem))) \<and>
   \<bar>currentPitchPercent (at_time 6200 (setPitch 10 runningSystem))\<bar>
      \<le> real_of_int (pitchRange (motor (at_time 6200 (setPitch 10 runningSystem)))) \<and>
   targetFreq (motor (update (at_time 6200 (setPitch 10 runningSystem)))) = 55 \<and>
   getFrequency (waveform (update (at_time 6200 (setPitch 10 runningSystem)))) = 55 \<and>
   currentFrequency (update (at_time 6200 (setPitch 10 runningSystem))) = 55 \<and>
   minFrequency (getCurrentSpeedSettings (settings (at_time 6200 (setPitch 10 runningSystem))))
      \<le> (55::real) \<and>
   (55::real)
      \<le> maxFrequency (getCurrentSpeedSettings (settings (at_time 6200 (setPitch 10 runningSystem))))"
proof -
  let ?s = "at_time 6200 (setPitch 10 runningSystem)"
  have p: "m_state (motor ?s) = STATE_RUNNING" "\<not> isSpeedRamping (motor ?s)"
    "settings ?s = defaultSettings" "currentPitchPercent ?s = 10" "pitchRange (motor ?s) = 10"
    "currentFreq (motor ?s) = 50"
    by (simp_all add: at_time_def setPitch_def runningSystem_facts)
  from C4_running_frequency [OF p(1,2) refl refl] show ?thesis
    by (simp add: p defaultSettings_facts)
qed

text \<open>
  C4 as the specification states it fails.  In the running system of the session above
  (33 rpm: nominal 50 Hz, maximum 60 Hz) the pitch range is toggled from 10 to 50 and the
  pitch is set to the boundary 50; the next tick hands 75 Hz to the DDS and publishes it.
\<close>

theorem C4_pitch_exceeds_max_counterexample:
  "m_state (motor (at_time 6200 (setPitch 50 (togglePitchRange (togglePitchRange
      (togglePitchRange (togglePitchRange runningSystem))))))) = STATE_RUNNING \<and>
   pitchRange (motor (at_time 6200 (setPitch 50 (togglePitchRange (togglePitchRange
      (togglePitchRange (togglePitchRange runningSystem))))))) = 50 \<and>
   currentPitchPercent (at_time 6200 (setPitch 50 (togglePitchRange (togglePitchRange
      (togglePitchRange (togglePitchRange runningSystem)))))) = 50 \<and>
   maxFrequency (getCurrentSpeedSettings (settings (at_time 6200 (setPitch 50 (togglePitchRange
      (togglePitchRange (togglePitchRange (togglePitchRange runningSystem)))))))) = 60 \<and>
   getFrequency (waveform (update (at_time 6200 (setPitch 50 (togglePitchRange (togglePitchRange
      (togglePitchRange (togglePitchRange runningSystem)))))))) = 75 \<and>
   currentFrequency (update (at_time 6200 (setPitch 50 (togglePitchRange (togglePitchRange
      (togglePitchRange (togglePitchRange runningSystem))))))) = 75"
proof -
  let ?s = "at_time 6200 (setPitch 50 (togglePitchRange (togglePitchRange
      (togglePitchRange (togglePitchRange runningSystem)))))"
  have p: "m_state (motor ?s) = STATE_RUNNING" "\<not> isSpeedRamping (motor ?s)"
    "settings ?s = defaultSettings" "currentPitchPercent ?s = 50" "pitchRange (motor ?s) = 50"
    "currentFreq (motor ?s) = 50"
    by (simp_all add: at_time_def setPitch_def togglePitchRange_def Let_def runningSystem_facts)
  from update_running_frequency [OF p(1,2) refl] show ?thesis
    by (simp add: p defaultSettings_facts)
qed

text \<open>
  C5 (as the code has it).  A settings update, \<open>configure\<close> or \<open>updateSettings\<close>, leaves
  the four IIR previous-output values and the four FIR ring buffers exactly as they were,
  also when it changes the filter kind, and so does the state swap at the start of the
  next refill.  A history is rewritten only by the samples synthesised while its own kind
  is active: a refill after an update to a kind other than IIR leaves the IIR values
  unchanged, and a refill after an update to a kind other than FIR leaves the FIR buffers
  unchanged.
\<close>

theorem C5_filter_state_kept:
  "iirPrev (updateSettings f sp g) = iirPrev g \<and> firBuffer (updateSettings f sp g) = firBuffer g \<and>
   iirPrev (configure sp g) = iirPrev g \<and> firBuffer (configure sp g) = firBuffer g \<and>
   iirPrev (handleStateSwap (updateSettings f sp g)) = iirPrev g \<and>
   firBuffer (handleStateSwap (updateSettings f sp g)) = firBuffer g \<and>
   iirPrev (handleStateSwap (configure sp g)) = iirPrev g \<and>
   firBuffer (handleStateSwap (configure sp g)) = firBuffer g \<and>
   (enabled g \<and> unat (filterType sp) \<noteq> FILTER_IIR \<longrightarrow>
      iirPrev (fillBuffer b (updateSettings f sp g)) = iirPrev g \<and>
      iirPrev (fillBuffer b (configure sp g)) = iirPrev g) \<and>
   (enabled g \<and> unat (filterType sp) \<noteq> FILTER_FIR \<longrightarrow>
      firBuffer (fillBuffer b (updateSettings f sp g)) = firBuffer g \<and>
      firBuffer (fillBuffer b (configure sp g)) = firBuffer g)"
  using fillBuffer_histories [OF refl, of "updateSettings f sp g" b]
    fillBuffer_histories [OF refl, of "configure sp g" b] control_histories [of f sp g]
  by (simp add: handleStateSwap_frame)

theorem C5_filter_state_kept_witness:
  "enabled iirGenerator \<and> unat (filterType (speeds defaultSettings 0)) \<noteq> FILTER_IIR \<and>
   iirPrev (updateSettings 50 (speeds defaultSettings 0) iirGenerator) = iirPrev iirGenerator \<and>
   iirPrev (fillBuffer 0 (updateSettings 50 (speeds defaultSettings 0) iirGenerator))
     = iirPrev iirGenerator"
proof -
  have n: "unat (filterType (speeds defaultSettings 0)) \<noteq> FILTER_IIR"
    by (simp add: defaultSettings_facts FILTER_IIR_def)
  from C5_filter_state_kept [of 50 "speeds defaultSettings 0" iirGenerator 0] n
    iirGenerator_facts(1)
  show ?thesis by simp
qed

text \<open>
  C5 as the specification states it fails.  The generator above has run one refill with
  the IIR filter, which leaves a previous output of at least 255.5 for channel B.  An
  \<open>updateSettings\<close> with the default profile changes the filter kind from IIR to None;
  after the swap, before the next sample is synthesised, and after the whole next
  refill, that previous output is still not zero.
\<close>

theorem C5_history_not_reset_counterexample:
  "ws_filterType (activeState iirGenerator) = FILTER_IIR \<and>
   ws_filterType (activeState (handleStateSwap
      (updateSettings 50 (speeds defaultSettings 0) iirGenerator))) = FILTER_NONE \<and>
   iirPrev (handleStateSwap (updateSettings 50 (speeds defaultSettings 0) iirGenerator)) 1 \<noteq> 0 \<and>
   iirPrev (fillBuffer 0 (updateSettings 50 (speeds defaultSettings 0) iirGenerator)) 1 \<noteq> 0"
proof -
  let ?u = "updateSettings 50 (speeds defaultSettings 0) iirGenerator"
  have n: "unat (filterType (speeds defaultSettings 0)) = FILTER_NONE"
    by (simp add: defaultSettings_facts FILTER_NONE_def)
  note c = control_histories [of 50 "speeds defaultSettings 0" iirGenerator]
  have a: "ws_filterType (activeState (handleStateSwap ?u)) = FILTER_NONE"
    using c n by (simp add: handleStateSwap_frame)
  have h1: "iirPrev (handleStateSwap ?u) = iirPrev iirGenerator"
    using c by (simp add: handleStateSwap_frame)
  have "FILTER_NONE \<noteq> FILTER_IIR" by (simp add: FILTER_NONE_def FILTER_IIR_def)
  with fillBuffer_histories [OF refl, of ?u 0] c n iirGenerator_facts(1)
  have h2: "iirPrev (fillBuffer 0 ?u) = iirPrev iirGenerator" by simp
  from iirGenerator_facts a h1 h2 show ?thesis by simp
qed

text \<open>
  C2 (as the code has it).  The phase mode is a field of the global settings that the
  synthesis path never reads: \<open>applySettings\<close> hands the generator the speed profile only,
  and \<open>fillBuffer\<close> synthesises all four channels from the generator's own state.  So for
  every system state and every value \<open>n\<close> of the phase mode, setting the phase mode to \<open>n\<close>
  changes neither the generator that \<open>applySettings\<close> produces nor any word that a refill
  writes; no channel is forced to the centre value.
\<close>

theorem C2_phase_mode_unused:
  "waveform (applySettings (s\<lparr>settings := (settings s)\<lparr>phaseMode := n\<rparr>\<rparr>)) = waveform (applySettings s) \<and>
   fillBuffer b (waveform (applySettings (s\<lparr>settings := (settings s)\<lparr>phaseMode := n\<rparr>\<rparr>)))
     = fillBuffer b (waveform (applySettings s)) \<and>
   fillBuffer b (waveform (s\<lparr>settings := (settings s)\<lparr>phaseMode := n\<rparr>\<rparr>)) = fillBuffer b (waveform s)"
  by (simp add: applySettings_def getCurrentSpeedSettings_def Let_def)

text \<open>
  C2 as the specification states it fails.  In the running system of the session above
  the phase mode is set to 1; the generator is enabled with the default offsets.  In the
  first word of slice 0 written by the next refill, the compare value of channel B (index
  1, which is not below the phase mode) is not the centre value 512: channel B is at 90
  degrees, where the sine table holds its maximum.
\<close>

theorem C2_channel_B_counterexample:
  "phaseMode (settings (runningSystem\<lparr>settings := (settings runningSystem)\<lparr>phaseMode := 1\<rparr>\<rparr>)) = 1 \<and>
   enabled (waveform (runningSystem\<lparr>settings := (settings runningSystem)\<lparr>phaseMode := 1\<rparr>\<rparr>)) \<and>
   highHalf (dmaBufferSlice0 (fillBuffer 1
      (waveform (runningSystem\<lparr>settings := (settings runningSystem)\<lparr>phaseMode := 1\<rparr>\<rparr>))) 1 0)
     \<noteq> 512 \<and>
   1000 < unat (highHalf (dmaBufferSlice0 (fillBuffer 1
      (waveform (runningSystem\<lparr>settings := (settings runningSystem)\<lparr>phaseMode := 1\<rparr>\<rparr>))) 1 0))"
proof -
  define w where "w = waveform runningSystem"
  note r = runningSystem_session [unfolded sessionAt_def, folded w_def]
  have e: "enabled w" "swapPending w" using r by simp_all
  define a where "a = handleStateSwap w"
  have af: "ws_filterType (activeState a) = FILTER_NONE" "phaseAcc a 0 = 0"
    "ws_phaseOffsets (activeState a) 1 = 1073741824" "ws_amplitude (activeState a) = 1"
    "lut a 4096 = 511"
    using r quarter_in_table sineTable_quarter by (simp_all add: a_def handleStateSwap_def)
  have n: "FILTER_NONE \<noteq> FILTER_IIR" "FILTER_NONE \<noteq> FILTER_FIR"
    by (simp_all add: FILTER_NONE_def FILTER_IIR_def FILTER_FIR_def)
  have q: "fst (getSample 1 a) = 511"
    using getSample_quarter_val [OF af(2,3,5,4)] af(1) n by simp
  have "highHalf (dmaBufferSlice0 (fillBuffer 1 w) 1 0) = 1023"
    unfolding fillBuffer_first_word [OF e(1)] a_def [symmetric] synthTick_channelB [OF af(1)] q
    by (simp add: clamp1023_def)
  with e show ?thesis by (simp add: w_def)
qed


end
